theory Spec2Isabelle
  imports Main "HOL-Library.Sublist"
begin

section \<open>Values shared by the waiter package\<close>

subsection \<open>Errors\<close>

text \<open>
  A Go \<open>error\<close> is modelled as a value of the datatype below; a nil error is \<open>None\<close> of
  \<open>error option\<close>. \<open>fmt.Errorf(format, args...)\<close> is kept unrendered, as its format string
  and its arguments: \<open>ArgS\<close> is an argument of a \<open>%s\<close> verb, \<open>ArgQ\<close> the string slice of a
  \<open>%q\<close> verb and \<open>ArgW\<close> the error wrapped by \<open>%w\<close>. \<open>RemoteError\<close> is an error handed
  back by the AWS client. \<open>TimeoutError\<close> and \<open>UnrecognizedStatusError\<close> are the two errors
  the poll loop itself raises (section 7 of the specification).
\<close>

datatype error =
    RemoteError string
  | ErrorsNew string
  | Errorf string "fmtarg list"
  | TimeoutError
  | UnrecognizedStatusError string
and fmtarg =
    ArgS string
  | ArgQ "string list"
  | ArgW error

text \<open>\<open>errors.Unwrap\<close>: the error a \<open>%w\<close> verb wrapped, if there is one.\<close>

fun wrappedArg :: "fmtarg list \<Rightarrow> error option" where
  "wrappedArg [] = None"
| "wrappedArg (ArgW e # as) = Some e"
| "wrappedArg (a # as) = wrappedArg as"

fun Unwrap :: "error \<Rightarrow> error option" where
  "Unwrap (Errorf f as) = wrappedArg as"
| "Unwrap e = None"

subsection \<open>Strings\<close>

text \<open>\<open>aws.StringValue\<close>: the string a \<open>*string\<close> points to, the empty string for nil.\<close>

definition StringValue :: "string option \<Rightarrow> string" where
  "StringValue p = (case p of None \<Rightarrow> [] | Some s \<Rightarrow> s)"

text \<open>\<open>strings.HasSuffix\<close> and \<open>strings.HasPrefix\<close>, as the Go library computes them.\<close>

definition HasSuffix :: "string \<Rightarrow> string \<Rightarrow> bool" where
  "HasSuffix s suf = (length suf \<le> length s \<and> drop (length s - length suf) s = suf)"

definition HasPrefix :: "string \<Rightarrow> string \<Rightarrow> bool" where
  "HasPrefix s pre = (length pre \<le> length s \<and> take (length pre) s = pre)"

text \<open>Whether \<open>sub\<close> occurs in \<open>s\<close> (used to read a format string).\<close>

fun Contains :: "string \<Rightarrow> string \<Rightarrow> bool" where
  "Contains [] sub = (sub = [])"
| "Contains (c # s) sub = (HasPrefix (c # s) sub \<or> Contains s sub)"

subsection \<open>Paginated listings\<close>

text \<open>
  What a paginated API holds for one request: the pages that can be fetched, in order, and
  the error of the fetch that follows them, if that fetch fails. With \<open>pageError = None\<close>
  the last element of \<open>pages\<close> is the last page.
\<close>

record 'p listing =
  pages :: "'p list"
  pageError :: "error option"

text \<open>
  Modelled from the spec: the page driver behind \<open>forEachEvent\<close> (section 4.3), which is
  \<open>lister.ListStackEventsForOperation\<close> and the client's \<open>...Pages\<close> methods, none of them
  under src/. It fetches page after page, hands each page and the last-page signal to the
  callback (which threads its accumulator \<open>s\<close>), stops when the callback returns false, and
  returns the error of a failed fetch.
\<close>

fun eachPage :: "'p list \<Rightarrow> error option \<Rightarrow> ('p \<Rightarrow> bool \<Rightarrow> 's \<Rightarrow> bool \<times> 's) \<Rightarrow> 's \<Rightarrow> 's \<times> error option" where
  "eachPage [] perr fn s = (s, perr)"
| "eachPage (p # ps) perr fn s =
     (case fn p (ps = [] \<and> perr = None) s of
        (continue, s') \<Rightarrow> if continue then eachPage ps perr fn s' else (s', None))"

section \<open>Stack events and the failure classifiers\<close>

record StackEvent =
  ResourceStatus :: "string option"
  ResourceStatusReason :: "string option"
  ResourceType :: "string option"

abbreviation ResourceStatusDeleteInProgress :: string where
  "ResourceStatusDeleteInProgress \<equiv> ''DELETE_IN_PROGRESS''"

text \<open>
  Modelled from the spec: \<open>lister.ListStackEventsForOperation\<close> (\<open>forEachEvent\<close> of section
  4.3; the lister package is not under src/). The listing is the event stream of the operation
  named by the stack ID and the request token; the callback is invoked on every record, page
  by page, until the last page.
\<close>

definition ListStackEventsForOperation ::
    "StackEvent list listing \<Rightarrow> (StackEvent \<Rightarrow> 's \<Rightarrow> 's) \<Rightarrow> 's \<Rightarrow> 's \<times> error option" where
  "ListStackEventsForOperation events fn s =
     eachPage (pages events) (pageError events)
       (\<lambda>page lastPage s'. (\<not> lastPage, fold fn page s')) s"

definition isFailedEvent :: "StackEvent \<Rightarrow> bool" where
  "isFailedEvent event =
     (HasSuffix (StringValue (ResourceStatus event)) ''_FAILED'' \<and> ResourceStatusReason event \<noteq> None)"

definition isRollbackEvent :: "StackEvent \<Rightarrow> bool" where
  "isRollbackEvent event =
     (HasPrefix (StringValue (ResourceStatus event)) ''ROLLBACK_'' \<and> ResourceStatusReason event \<noteq> None)"

definition isStackDeletionEvent :: "StackEvent \<Rightarrow> bool" where
  "isStackDeletionEvent event =
     (StringValue (ResourceStatus event) = ResourceStatusDeleteInProgress \<and>
      StringValue (ResourceType event) = ''AWS::CloudFormation::Stack'' \<and>
      ResourceStatusReason event \<noteq> None)"

text \<open>
  The three lookups return the accumulated \<open>failures\<close> together with the lister's error,
  also when that error is not nil.
\<close>

definition getCloudFormationDeletionReasons :: "StackEvent list listing \<Rightarrow> string list \<times> error option" where
  "getCloudFormationDeletionReasons events =
     ListStackEventsForOperation events
       (\<lambda>e failures. if isFailedEvent e \<or> isStackDeletionEvent e
                      then failures @ [StringValue (ResourceStatusReason e)] else failures) []"

definition getCloudFormationRollbackReasons :: "StackEvent list listing \<Rightarrow> string list \<times> error option" where
  "getCloudFormationRollbackReasons events =
     ListStackEventsForOperation events
       (\<lambda>e failures. if isFailedEvent e \<or> isRollbackEvent e
                      then failures @ [StringValue (ResourceStatusReason e)] else failures) []"

definition getCloudFormationFailures :: "StackEvent list listing \<Rightarrow> string list \<times> error option" where
  "getCloudFormationFailures events =
     ListStackEventsForOperation events
       (\<lambda>e failures. if isFailedEvent e
                      then failures @ [StringValue (ResourceStatusReason e)] else failures) []"

text \<open>
  The three classifiers as the specification words them (section 4.4), on the records of an
  event stream: a reason counts when it is a non-empty string.
\<close>

definition spec_CreateFailureReasons :: "StackEvent list \<Rightarrow> string list" where
  "spec_CreateFailureReasons es =
     map (\<lambda>e. StringValue (ResourceStatusReason e))
       (filter (\<lambda>e. suffix ''_FAILED'' (StringValue (ResourceStatus e)) \<and>
                     StringValue (ResourceStatusReason e) \<noteq> []) es)"

definition spec_RollbackReasons :: "StackEvent list \<Rightarrow> string list" where
  "spec_RollbackReasons es =
     map (\<lambda>e. StringValue (ResourceStatusReason e))
       (filter (\<lambda>e. (suffix ''_FAILED'' (StringValue (ResourceStatus e)) \<or>
                      prefix ''ROLLBACK_'' (StringValue (ResourceStatus e))) \<and>
                     StringValue (ResourceStatusReason e) \<noteq> []) es)"

definition spec_DeletionReasons :: "StackEvent list \<Rightarrow> string list" where
  "spec_DeletionReasons es =
     map (\<lambda>e. StringValue (ResourceStatusReason e))
       (filter (\<lambda>e. suffix ''_FAILED'' (StringValue (ResourceStatus e)) \<or>
                     (StringValue (ResourceType e) = ''AWS::CloudFormation::Stack'' \<and>
                      StringValue (ResourceStatus e) = ResourceStatusDeleteInProgress \<and>
                      StringValue (ResourceStatusReason e) \<noteq> [])) es)"

section \<open>The poll loop\<close>

record Stack =
  StackId :: "string option"
  StackStatus :: "string option"

record DescribeChangeSetOutput =
  Status :: "string option"
  StatusReason :: "string option"

text \<open>\<open>StackSetOperation.Status\<close>; the prefix keeps the field apart from the change set's.\<close>

record StackSetOperation =
  OperationId :: "string option"
  Operation_Status :: "string option"

text \<open>
  The dynamic value behind the \<open>interface{}\<close> that a refresher hands to the loop and the loop
  hands back: a pointer, never nil itself, to one of the response structs. The nil interface
  is \<open>None\<close> of \<open>ProviderObject option\<close>, and a type assertion is a \<open>case\<close> on the
  constructor.
\<close>

datatype ProviderObject =
    StackObject Stack
  | ChangeSetObject DescribeChangeSetOutput
  | StackSetOperationObject StackSetOperation

record StatusSnapshot =
  status :: string
  raw :: ProviderObject

text \<open>One answer of the refresher: a hard error, or a snapshot.\<close>

datatype refresh = RefreshError error | Refreshed StatusSnapshot

text \<open>
  \<open>resource.StateChangeConf\<close>, the poll policy of the specification: \<open>Pending\<close> and \<open>Target\<close>
  are \<open>pendingStatuses\<close> and \<open>targetStatuses\<close>, \<open>MinTimeout\<close> is \<open>minPollInterval\<close> and \<open>Delay\<close>
  is \<open>initialDelay\<close>. Durations are in seconds.
\<close>

record StateChangeConf =
  Pending :: "string list"
  Target :: "string list"
  Timeout :: nat
  MinTimeout :: nat
  Delay :: nat

text \<open>
  Modelled from the spec: the loop of \<open>StateChangeConf.WaitForState\<close> (section 4.2; the helper
  belongs to the plugin SDK and is not under src/). The refresher is the list of the answers
  it gives, in order; \<open>backoff n\<close> is the computed backoff after poll \<open>n\<close>; \<open>elapsed\<close> is the
  simulated time already slept; \<open>lastSeen\<close> is the last snapshot observed. A poll that finds the
  timeout exceeded ends the wait with \<open>TimeoutError\<close>; a hard error of the refresher ends it
  with that error; a target status ends it with no error; a pending status sleeps
  \<open>max MinTimeout (backoff n)\<close> and polls again; any other status ends it with
  \<open>UnrecognizedStatusError\<close>. In every case the last snapshot is handed back. \<open>None\<close> means
  that the list of answers ran out before the wait ended.
\<close>

fun pollLoop :: "StateChangeConf \<Rightarrow> (nat \<Rightarrow> nat) \<Rightarrow> nat \<Rightarrow> nat \<Rightarrow> StatusSnapshot option \<Rightarrow> refresh list
    \<Rightarrow> (StatusSnapshot option \<times> error option) option" where
  "pollLoop conf backoff n elapsed lastSeen [] =
     (if Timeout conf < elapsed then Some (lastSeen, Some TimeoutError) else None)"
| "pollLoop conf backoff n elapsed lastSeen (r # rs) =
     (if Timeout conf < elapsed then Some (lastSeen, Some TimeoutError)
      else case r of
        RefreshError e \<Rightarrow> Some (lastSeen, Some e)
      | Refreshed s \<Rightarrow>
          if status s \<in> set (Target conf) then Some (Some s, None)
          else if status s \<in> set (Pending conf)
          then pollLoop conf backoff (Suc n) (elapsed + max (MinTimeout conf) (backoff n)) (Some s) rs
          else Some (Some s, Some (UnrecognizedStatusError (status s))))"

text \<open>\<open>outputRaw, err := stateConf.WaitForState()\<close>: the raw object of the final snapshot, and the error.\<close>

definition WaitForState :: "StateChangeConf \<Rightarrow> (nat \<Rightarrow> nat) \<Rightarrow> refresh list
    \<Rightarrow> (ProviderObject option \<times> error option) option" where
  "WaitForState conf backoff answers =
     map_option (\<lambda>(lastSeen, err). (map_option raw lastSeen, err)) (pollLoop conf backoff 0 (Delay conf) None answers)"

text \<open>The simulated time at which poll number \<open>k\<close> (from 0) takes place.\<close>

fun elapsedAt :: "StateChangeConf \<Rightarrow> (nat \<Rightarrow> nat) \<Rightarrow> nat \<Rightarrow> nat" where
  "elapsedAt conf backoff 0 = Delay conf"
| "elapsedAt conf backoff (Suc k) = elapsedAt conf backoff k + max (MinTimeout conf) (backoff k)"

text \<open>
  Modelled from the spec: the refresher \<open>StackStatus\<close> (section 4.1; status.go is not under
  src/), which reports a stack under the status the stack carries.
\<close>

definition StackStatus_snapshot :: "Stack \<Rightarrow> StatusSnapshot" where
  "StackStatus_snapshot stack = \<lparr>status = StringValue (StackStatus stack), raw = StackObject stack\<rparr>"

text \<open>
  Modelled from the spec: the refresher \<open>StackSetOperationStatus\<close> (section 4.1; status.go is
  not under src/), which reports an operation under the status the operation carries. An
  answer of this refresher is a hard error or such a snapshot.
\<close>

definition StackSetOperationStatus_snapshot :: "StackSetOperation \<Rightarrow> StatusSnapshot" where
  "StackSetOperationStatus_snapshot operation =
     \<lparr>status = StringValue (Operation_Status operation), raw = StackSetOperationObject operation\<rparr>"

definition StackSetOperationStatus_answer :: "error + StackSetOperation \<Rightarrow> refresh" where
  "StackSetOperationStatus_answer x =
     (case x of Inl e \<Rightarrow> RefreshError e | Inr operation \<Rightarrow> Refreshed (StackSetOperationStatus_snapshot operation))"

section \<open>The waiters\<close>

text \<open>
  \<open>tfresource.SetLastError(err, lastErr)\<close> is not under src/. It receives \<open>err\<close> by value, so
  all it can do is update the error object \<open>err\<close> refers to: a nil \<open>err\<close> stays nil. The update
  itself is the parameter \<open>setLast\<close>.
\<close>

definition SetLastError :: "(error \<Rightarrow> error \<Rightarrow> error) \<Rightarrow> error option \<Rightarrow> error \<Rightarrow> error option" where
  "SetLastError setLast err lastErr = map_option (\<lambda>e. setLast e lastErr) err"

abbreviation ChangeSetStatusCreateInProgress :: string where
  "ChangeSetStatusCreateInProgress \<equiv> ''CREATE_IN_PROGRESS''"
abbreviation ChangeSetStatusCreatePending :: string where
  "ChangeSetStatusCreatePending \<equiv> ''CREATE_PENDING''"
abbreviation ChangeSetStatusCreateComplete :: string where
  "ChangeSetStatusCreateComplete \<equiv> ''CREATE_COMPLETE''"
abbreviation ChangeSetStatusFailed :: string where
  "ChangeSetStatusFailed \<equiv> ''FAILED''"

abbreviation ChangeSetCreatedTimeout :: nat where
  "ChangeSetCreatedTimeout \<equiv> 5 * 60"

definition ChangeSetCreated_stateConf :: StateChangeConf where
  "ChangeSetCreated_stateConf =
     \<lparr>Pending = [ChangeSetStatusCreateInProgress, ChangeSetStatusCreatePending],
      Target = [ChangeSetStatusCreateComplete],
      Timeout = ChangeSetCreatedTimeout, MinTimeout = 0, Delay = 0\<rparr>"

text \<open>
  Each waiter is modelled from the point where \<open>stateConf.WaitForState()\<close> has returned: its
  first argument \<open>w\<close> is the pair \<open>(outputRaw, err)\<close> of that call, and the \<open>stateConf\<close> it
  built for the call is the constant next to it.
\<close>

definition ChangeSetCreated :: "(error \<Rightarrow> error \<Rightarrow> error) \<Rightarrow> ProviderObject option \<times> error option
    \<Rightarrow> DescribeChangeSetOutput option \<times> error option" where
  "ChangeSetCreated setLast w =
     (case w of (outputRaw, err) \<Rightarrow>
        (case outputRaw of
           Some (ChangeSetObject output) \<Rightarrow>
             if StringValue (Status output) = ChangeSetStatusFailed
             then (Some output, SetLastError setLast err (ErrorsNew (StringValue (StatusReason output))))
             else (Some output, err)
         | _ \<Rightarrow> (None, err)))"

abbreviation StackSetOperationStatusRunning :: string where
  "StackSetOperationStatusRunning \<equiv> ''RUNNING''"
abbreviation StackSetOperationStatusSucceeded :: string where
  "StackSetOperationStatusSucceeded \<equiv> ''SUCCEEDED''"
abbreviation StackSetOperationStatusFailed :: string where
  "StackSetOperationStatusFailed \<equiv> ''FAILED''"

abbreviation stackSetOperationDelay :: nat where
  "stackSetOperationDelay \<equiv> 5"

record StackSetOperationResultSummary =
  Account :: "string option"
  Region :: "string option"
  Summary_StatusReason :: "string option"

record ListStackSetOperationResultsOutput =
  Summaries :: "StackSetOperationResultSummary list"

definition StackSetOperationSucceeded_stateConf :: "nat \<Rightarrow> StateChangeConf" where
  "StackSetOperationSucceeded_stateConf timeout =
     \<lparr>Pending = [StackSetOperationStatusRunning],
      Target = [StackSetOperationStatusSucceeded],
      Timeout = timeout, MinTimeout = 0, Delay = stackSetOperationDelay\<rparr>"

text \<open>The callback handed to \<open>ListStackSetOperationResultsPages\<close>; \<open>None\<close> is a nil page.\<close>

definition collectSummaries :: "ListStackSetOperationResultsOutput option \<Rightarrow> bool
    \<Rightarrow> StackSetOperationResultSummary list \<Rightarrow> bool \<times> StackSetOperationResultSummary list" where
  "collectSummaries page lastPage summaries =
     (case page of
        None \<Rightarrow> (\<not> lastPage, summaries)
      | Some pg \<Rightarrow> (\<not> lastPage, summaries @ Summaries pg))"

definition ListStackSetOperationResultsPages ::
    "ListStackSetOperationResultsOutput option listing
     \<Rightarrow> (ListStackSetOperationResultsOutput option \<Rightarrow> bool \<Rightarrow> 's \<Rightarrow> bool \<times> 's) \<Rightarrow> 's \<Rightarrow> 's \<times> error option" where
  "ListStackSetOperationResultsPages results fn s = eachPage (pages results) (pageError results) fn s"

text \<open>
  \<open>tfcloudformation.StackSetOperationError\<close> is not under src/; it is the parameter
  \<open>operationError\<close>.
\<close>

definition StackSetOperationSucceeded ::
    "(error \<Rightarrow> error \<Rightarrow> error) \<Rightarrow> (StackSetOperationResultSummary list \<Rightarrow> error) \<Rightarrow> string \<Rightarrow> string
     \<Rightarrow> ProviderObject option \<times> error option \<Rightarrow> ListStackSetOperationResultsOutput option listing
     \<Rightarrow> StackSetOperation option \<times> error option" where
  "StackSetOperationSucceeded setLast operationError stackSetName operationID w results =
     (case w of (outputRaw, waitErr) \<Rightarrow>
        (case outputRaw of
           Some (StackSetOperationObject output) \<Rightarrow>
             if StringValue (Operation_Status output) = StackSetOperationStatusFailed
             then (case ListStackSetOperationResultsPages results collectSummaries [] of
                     (summaries, None) \<Rightarrow>
                       (Some output,
                        SetLastError setLast waitErr
                          (Errorf ''Operation (%s) Results: %w''
                             [ArgS operationID, ArgW (operationError summaries)]))
                   | (summaries, Some listErr) \<Rightarrow>
                       (Some output,
                        SetLastError setLast waitErr
                          (Errorf ''error listing CloudFormation Stack Set (%s) Operation (%s) results: %w''
                             [ArgS stackSetName, ArgS operationID, ArgW listErr])))
             else (Some output, waitErr)
         | _ \<Rightarrow> (None, waitErr)))"

abbreviation StackStatusCreateInProgress :: string where
  "StackStatusCreateInProgress \<equiv> ''CREATE_IN_PROGRESS''"
abbreviation StackStatusCreateComplete :: string where
  "StackStatusCreateComplete \<equiv> ''CREATE_COMPLETE''"
abbreviation StackStatusCreateFailed :: string where
  "StackStatusCreateFailed \<equiv> ''CREATE_FAILED''"
abbreviation StackStatusDeleteInProgress :: string where
  "StackStatusDeleteInProgress \<equiv> ''DELETE_IN_PROGRESS''"
abbreviation StackStatusDeleteComplete :: string where
  "StackStatusDeleteComplete \<equiv> ''DELETE_COMPLETE''"
abbreviation StackStatusDeleteFailed :: string where
  "StackStatusDeleteFailed \<equiv> ''DELETE_FAILED''"
abbreviation StackStatusRollbackInProgress :: string where
  "StackStatusRollbackInProgress \<equiv> ''ROLLBACK_IN_PROGRESS''"
abbreviation StackStatusRollbackComplete :: string where
  "StackStatusRollbackComplete \<equiv> ''ROLLBACK_COMPLETE''"
abbreviation StackStatusRollbackFailed :: string where
  "StackStatusRollbackFailed \<equiv> ''ROLLBACK_FAILED''"
abbreviation StackStatusUpdateInProgress :: string where
  "StackStatusUpdateInProgress \<equiv> ''UPDATE_IN_PROGRESS''"
abbreviation StackStatusUpdateComplete :: string where
  "StackStatusUpdateComplete \<equiv> ''UPDATE_COMPLETE''"
abbreviation StackStatusUpdateCompleteCleanupInProgress :: string where
  "StackStatusUpdateCompleteCleanupInProgress \<equiv> ''UPDATE_COMPLETE_CLEANUP_IN_PROGRESS''"
abbreviation StackStatusUpdateRollbackInProgress :: string where
  "StackStatusUpdateRollbackInProgress \<equiv> ''UPDATE_ROLLBACK_IN_PROGRESS''"
abbreviation StackStatusUpdateRollbackCompleteCleanupInProgress :: string where
  "StackStatusUpdateRollbackCompleteCleanupInProgress \<equiv> ''UPDATE_ROLLBACK_COMPLETE_CLEANUP_IN_PROGRESS''"
abbreviation StackStatusUpdateRollbackComplete :: string where
  "StackStatusUpdateRollbackComplete \<equiv> ''UPDATE_ROLLBACK_COMPLETE''"
abbreviation StackStatusUpdateRollbackFailed :: string where
  "StackStatusUpdateRollbackFailed \<equiv> ''UPDATE_ROLLBACK_FAILED''"

abbreviation stackCreatedMinTimeout :: nat where
  "stackCreatedMinTimeout \<equiv> 1"
abbreviation stackUpdatedMinTimeout :: nat where
  "stackUpdatedMinTimeout \<equiv> 5"
abbreviation stackDeletedMinTimeout :: nat where
  "stackDeletedMinTimeout \<equiv> 5"

definition StackCreated_stateConf :: "nat \<Rightarrow> StateChangeConf" where
  "StackCreated_stateConf timeout =
     \<lparr>Pending = [StackStatusCreateInProgress, StackStatusDeleteInProgress, StackStatusRollbackInProgress],
      Target = [StackStatusCreateComplete, StackStatusCreateFailed, StackStatusDeleteComplete,
                StackStatusDeleteFailed, StackStatusRollbackComplete, StackStatusRollbackFailed],
      Timeout = timeout, MinTimeout = stackCreatedMinTimeout, Delay = 10\<rparr>"

definition StackCreated :: "ProviderObject option \<times> error option \<Rightarrow> StackEvent list listing
    \<Rightarrow> Stack option \<times> error option" where
  "StackCreated w events =
     (case w of (outputRaw, err) \<Rightarrow>
        if err \<noteq> None then (None, err)
        else (case outputRaw of
           Some (StackObject stack) \<Rightarrow>
             (let lastStatus = StringValue (StackStatus stack) in
              if lastStatus = StackStatusRollbackComplete \<or> lastStatus = StackStatusRollbackFailed then
                (case getCloudFormationRollbackReasons events of
                   (reasons, Some e) \<Rightarrow>
                     (Some stack, Some (Errorf
                        ''failed to create CloudFormation stack, rollback requested (%s). Got an error reading failure information: %w''
                        [ArgS lastStatus, ArgW e]))
                 | (reasons, None) \<Rightarrow>
                     (Some stack, Some (Errorf
                        ''failed to create CloudFormation stack, rollback requested (%s): %q''
                        [ArgS lastStatus, ArgQ reasons])))
              else if lastStatus = StackStatusDeleteComplete \<or> lastStatus = StackStatusDeleteFailed then
                (case getCloudFormationDeletionReasons events of
                   (reasons, Some e) \<Rightarrow>
                     (Some stack, Some (Errorf
                        ''failed to create CloudFormation stack, delete requested (%s). Got an error reading failure information: %w''
                        [ArgS lastStatus, ArgW e]))
                 | (reasons, None) \<Rightarrow>
                     (Some stack, Some (Errorf
                        ''failed to create CloudFormation stack, delete requested (%s): %q''
                        [ArgS lastStatus, ArgQ reasons])))
              else if lastStatus = StackStatusCreateFailed then
                (case getCloudFormationFailures events of
                   (reasons, Some e) \<Rightarrow>
                     (Some stack, Some (Errorf
                        ''failed to create CloudFormation stack (%s). Got an error reading failure information: %w''
                        [ArgS lastStatus, ArgW e]))
                 | (reasons, None) \<Rightarrow>
                     (Some stack, Some (Errorf
                        ''failed to create CloudFormation stack (%s): %q''
                        [ArgS lastStatus, ArgQ reasons])))
              else (Some stack, None))
         | _ \<Rightarrow> (None, err)))"

definition StackUpdated_stateConf :: "nat \<Rightarrow> StateChangeConf" where
  "StackUpdated_stateConf timeout =
     \<lparr>Pending = [StackStatusUpdateCompleteCleanupInProgress, StackStatusUpdateInProgress,
                 StackStatusUpdateRollbackInProgress, StackStatusUpdateRollbackCompleteCleanupInProgress],
      Target = [StackStatusCreateComplete, StackStatusUpdateComplete,
                StackStatusUpdateRollbackComplete, StackStatusUpdateRollbackFailed],
      Timeout = timeout, MinTimeout = stackUpdatedMinTimeout, Delay = 10\<rparr>"

definition StackUpdated :: "ProviderObject option \<times> error option \<Rightarrow> StackEvent list listing
    \<Rightarrow> Stack option \<times> error option" where
  "StackUpdated w events =
     (case w of (outputRaw, err) \<Rightarrow>
        if err \<noteq> None then (None, err)
        else (case outputRaw of
           Some (StackObject stack) \<Rightarrow>
             (let lastStatus = StringValue (StackStatus stack) in
              if lastStatus = StackStatusUpdateRollbackComplete \<or> lastStatus = StackStatusUpdateRollbackFailed then
                (case getCloudFormationRollbackReasons events of
                   (reasons, Some e) \<Rightarrow>
                     (Some stack, Some (Errorf
                        ''failed to update CloudFormation stack (%s). Got an error reading failure information: %w''
                        [ArgS lastStatus, ArgW e]))
                 | (reasons, None) \<Rightarrow>
                     (Some stack, Some (Errorf
                        ''failed to update CloudFormation stack (%s): %q''
                        [ArgS lastStatus, ArgQ reasons])))
              else (Some stack, None))
         | _ \<Rightarrow> (None, err)))"

definition StackDeleted_stateConf :: "nat \<Rightarrow> StateChangeConf" where
  "StackDeleted_stateConf timeout =
     \<lparr>Pending = [StackStatusDeleteInProgress, StackStatusRollbackInProgress],
      Target = [StackStatusDeleteComplete, StackStatusDeleteFailed],
      Timeout = timeout, MinTimeout = stackDeletedMinTimeout, Delay = 10\<rparr>"

definition StackDeleted :: "ProviderObject option \<times> error option \<Rightarrow> StackEvent list listing
    \<Rightarrow> Stack option \<times> error option" where
  "StackDeleted w events =
     (case w of (outputRaw, err) \<Rightarrow>
        if err \<noteq> None then (None, err)
        else (case outputRaw of
           Some (StackObject stack) \<Rightarrow>
             (let lastStatus = StringValue (StackStatus stack) in
              if lastStatus = StackStatusDeleteFailed then
                (case getCloudFormationFailures events of
                   (reasons, Some e) \<Rightarrow>
                     (Some stack, Some (Errorf
                        ''failed to delete CloudFormation stack (%s). Got an error reading failure information: %w''
                        [ArgS lastStatus, ArgW e]))
                 | (reasons, None) \<Rightarrow>
                     (Some stack, Some (Errorf
                        ''failed to delete CloudFormation stack (%s): %q''
                        [ArgS lastStatus, ArgQ reasons])))
              else (Some stack, None))
         | _ \<Rightarrow> (None, err)))"

section \<open>The MSK connector resource\<close>

text \<open>
  \<open>kafkaconnect.DescribeConnectorOutput\<close> and the structs it points to, with the fields that
  \<open>resourceAwsMskConnectorRead\<close> reads. Every pointer is an \<open>option\<close>, nil being \<open>None\<close>.
\<close>

record ProvisionedCapacityDescription =
  McuCount :: "int option"
  WorkerCount :: "int option"

record CapacityDescription =
  ProvisionedCapacity :: "ProvisionedCapacityDescription option"

record KafkaClusterClientAuthenticationDescription =
  AuthenticationType :: "string option"

record KafkaClusterEncryptionInTransitDescription =
  EncryptionType :: "string option"

record VpcDescription =
  SecurityGroups :: "string option list"
  Subnets :: "string option list"

record ApacheKafkaClusterDescription =
  BootstrapServers :: "string option"
  Vpc :: "VpcDescription option"

record KafkaClusterDescription =
  ApacheKafkaCluster :: "ApacheKafkaClusterDescription option"

record CloudWatchLogsLogDeliveryDescription =
  LogGroup :: "string option"

record FirehoseLogDeliveryDescription =
  DeliveryStream :: "string option"

record S3LogDeliveryDescription =
  Bucket :: "string option"
  Prefix :: "string option"

record WorkerLogDeliveryDescription =
  CloudWatchLogs :: "CloudWatchLogsLogDeliveryDescription option"
  Firehose :: "FirehoseLogDeliveryDescription option"
  S3 :: "S3LogDeliveryDescription option"

record LogDeliveryDescription =
  WorkerLogDelivery :: "WorkerLogDeliveryDescription option"

record DescribeConnectorOutput =
  ConnectorArn :: "string option"
  ConnectorName :: "string option"
  ConnectorDescription :: "string option"
  Capacity :: "CapacityDescription option"
  KafkaClusterClientAuthentication :: "KafkaClusterClientAuthenticationDescription option"
  KafkaClusterEncryptionInTransit :: "KafkaClusterEncryptionInTransitDescription option"
  KafkaCluster :: "KafkaClusterDescription option"
  KafkaConnectVersion :: "string option"
  LogDelivery :: "LogDeliveryDescription option"
  ServiceExecutionRoleArn :: "string option"

text \<open>The values stored under the keys of \<open>fields\<close>: pointers and slices of pointers.\<close>

datatype fieldValue =
    StringPtr "string option"
  | Int64Ptr "int option"
  | StringPtrSlice "string option list"

datatype panic = NilPointerDereference

text \<open>
  \<open>schema.ResourceData\<close>: the resource ID and the attributes. \<open>diag.Diagnostics\<close> is a list of
  diagnostics, and \<open>diag.FromErr\<close> of a non-nil error is the single diagnostic of that error.
\<close>

record ResourceData =
  Id :: string
  attributes :: "string \<rightharpoonup> fieldValue"

datatype Diagnostic = ErrorDiagnostic error

definition FromErr :: "error \<Rightarrow> Diagnostic list" where
  "FromErr err = [ErrorDiagnostic err]"

text \<open>
  Reading a field through a pointer: a nil pointer panics. \<open>andThen\<close> carries on with the
  struct pointed to.
\<close>

definition andThen :: "'a option \<Rightarrow> ('a \<Rightarrow> panic + 'b) \<Rightarrow> panic + 'b" where
  "andThen p f = (case p of None \<Rightarrow> Inl NilPointerDereference | Some x \<Rightarrow> f x)"

text \<open>The map literal \<open>fields\<close>.\<close>

definition connectorFields :: "DescribeConnectorOutput \<Rightarrow> panic + (string \<times> fieldValue) list" where
  "connectorFields c =
     andThen (Capacity c) (\<lambda>cap.
     andThen (ProvisionedCapacity cap) (\<lambda>pc.
     andThen (KafkaClusterClientAuthentication c) (\<lambda>auth.
     andThen (KafkaClusterEncryptionInTransit c) (\<lambda>enc.
     andThen (KafkaCluster c) (\<lambda>kc.
     andThen (ApacheKafkaCluster kc) (\<lambda>akc.
     andThen (Vpc akc) (\<lambda>vpc.
     andThen (LogDelivery c) (\<lambda>ld.
     andThen (WorkerLogDelivery ld) (\<lambda>wld.
     andThen (CloudWatchLogs wld) (\<lambda>cw.
     andThen (Firehose wld) (\<lambda>fh.
     andThen (S3 wld) (\<lambda>s3.
       Inr [(''connector_name'', StringPtr (ConnectorName c)),
            (''connector_description'', StringPtr (ConnectorDescription c)),
            (''mcu_count'', Int64Ptr (McuCount pc)),
            (''workers_count'', Int64Ptr (WorkerCount pc)),
            (''auth_type'', StringPtr (AuthenticationType auth)),
            (''encryption_type'', StringPtr (EncryptionType enc)),
            (''bootstrap_servers'', StringPtr (BootstrapServers akc)),
            (''security_groups'', StringPtrSlice (SecurityGroups vpc)),
            (''subnets'', StringPtrSlice (Subnets vpc)),
            (''kafka_connect_version'', StringPtr (KafkaConnectVersion c)),
            (''cw_log_group'', StringPtr (LogGroup cw)),
            (''firehose_log_delivery_stream'', StringPtr (DeliveryStream fh)),
            (''s3_log_bucket'', StringPtr (Bucket s3)),
            (''s3_log_prefix'', StringPtr (Prefix s3)),
            (''execution_role_arn'', StringPtr (ServiceExecutionRoleArn c)),
            (''plugins_arns'', StringPtr (ServiceExecutionRoleArn c))]))))))))))))"

text \<open>
  The loop \<open>for k, v := range fields\<close>. \<open>d.Set\<close> belongs to the plugin SDK: it is the
  parameter \<open>dSet\<close>, which updates the attributes and may return an error. Every error adds
  its diagnostics.
\<close>

fun setFields :: "(string \<Rightarrow> fieldValue \<Rightarrow> (string \<rightharpoonup> fieldValue) \<Rightarrow> (string \<rightharpoonup> fieldValue) \<times> error option)
    \<Rightarrow> (string \<times> fieldValue) list \<Rightarrow> ResourceData \<Rightarrow> Diagnostic list \<Rightarrow> ResourceData \<times> Diagnostic list" where
  "setFields dSet [] d diagnostics = (d, diagnostics)"
| "setFields dSet ((k, v) # kvs) d diagnostics =
     (case dSet k v (attributes d) of
        (attrs, err) \<Rightarrow>
          setFields dSet kvs (d\<lparr>attributes := attrs\<rparr>)
            (case err of None \<Rightarrow> diagnostics | Some e \<Rightarrow> diagnostics @ FromErr e))"

text \<open>
  \<open>resourceAwsMskConnectorRead\<close>. The pair \<open>(c, err)\<close> is what \<open>conn.DescribeConnector\<close>
  returned for the ID of \<open>d\<close>; \<open>visit\<close> is the order in which \<open>range\<close> walks the map, which Go
  leaves open. The result is the updated resource data and the diagnostics, or a panic.
\<close>

definition resourceAwsMskConnectorRead ::
    "(string \<Rightarrow> fieldValue \<Rightarrow> (string \<rightharpoonup> fieldValue) \<Rightarrow> (string \<rightharpoonup> fieldValue) \<times> error option)
     \<Rightarrow> ((string \<times> fieldValue) list \<Rightarrow> (string \<times> fieldValue) list)
     \<Rightarrow> ResourceData \<Rightarrow> DescribeConnectorOutput option \<times> error option
     \<Rightarrow> panic + ResourceData \<times> Diagnostic list" where
  "resourceAwsMskConnectorRead dSet visit d r =
     (case r of (c, err) \<Rightarrow>
        (case err of
           Some e \<Rightarrow> Inr (d\<lparr>Id := []\<rparr>, FromErr e)
         | None \<Rightarrow>
             (case c of
                None \<Rightarrow> Inl NilPointerDereference
              | Some c' \<Rightarrow>
                  (case ConnectorArn c' of
                     None \<Rightarrow> Inl NilPointerDereference
                   | Some arn \<Rightarrow>
                       (case connectorFields c' of
                          Inl p \<Rightarrow> Inl p
                        | Inr kvs \<Rightarrow> Inr (setFields dSet (visit kvs) (d\<lparr>Id := arn\<rparr>) []))))))"

section \<open>Properties\<close>

subsection \<open>Strings and pagination\<close>

lemma HasSuffix_suffix: "HasSuffix s suf = suffix suf s"
proof
  assume "HasSuffix s suf"
  then have "s = take (length s - length suf) s @ suf"
    by (metis HasSuffix_def append_take_drop_id)
  then show "suffix suf s" by (metis suffixI)
next
  assume "suffix suf s"
  then obtain zs where "s = zs @ suf" by (auto simp: suffix_def)
  then show "HasSuffix s suf" by (simp add: HasSuffix_def)
qed

lemma HasPrefix_prefix: "HasPrefix s pre = prefix pre s"
proof
  assume "HasPrefix s pre"
  then have "s = pre @ drop (length pre) s"
    by (metis HasPrefix_def append_take_drop_id)
  then show "prefix pre s" by (metis prefixI)
next
  assume "prefix pre s"
  then obtain zs where "s = pre @ zs" by (auto simp: prefix_def)
  then show "HasPrefix s pre" by (simp add: HasPrefix_def)
qed

lemma eachPage_until_last:
  "eachPage ps perr (\<lambda>page lastPage s'. (\<not> lastPage, g page s')) s = (fold g ps s, perr)"
proof (induction ps arbitrary: s)
  case Nil
  show ?case by simp
next
  case (Cons p ps)
  show ?case
  proof (cases "ps = [] \<and> perr = None")
    case True
    then show ?thesis by simp
  next
    case False
    then show ?thesis using Cons.IH by auto
  qed
qed

lemma fold_fold_concat: "fold (fold fn) ps s = fold fn (concat ps) s"
  by (induction ps arbitrary: s) simp_all

lemma ListStackEvents_fold:
  "ListStackEventsForOperation events fn s = (fold fn (concat (pages events)) s, pageError events)"
  by (simp add: ListStackEventsForOperation_def eachPage_until_last fold_fold_concat)

lemma fold_collect:
  "fold (\<lambda>e acc. if P e then acc @ [f e] else acc) es acc0 = acc0 @ map f (filter P es)"
  by (induction es arbitrary: acc0) simp_all

lemma fold_append_each:
  "fold (\<lambda>p acc. acc @ h p) ps acc0 = acc0 @ concat (map h ps)"
  by (induction ps arbitrary: acc0) simp_all

lemma collectSummaries_until_last:
  "collectSummaries =
     (\<lambda>page lastPage summaries.
        (\<not> lastPage, summaries @ (case page of None \<Rightarrow> [] | Some pg \<Rightarrow> Summaries pg)))"
  by (auto simp: collectSummaries_def fun_eq_iff split: option.splits)

lemma ListStackSetOperationResults_collect:
  "ListStackSetOperationResultsPages results collectSummaries [] =
     (concat (map (\<lambda>page. case page of None \<Rightarrow> [] | Some pg \<Rightarrow> Summaries pg) (pages results)),
      pageError results)"
  unfolding ListStackSetOperationResultsPages_def collectSummaries_until_last
  by (simp add: eachPage_until_last fold_append_each)

subsection \<open>The failure classifiers\<close>

text \<open>
  Claim C3, as amended. For every event stream, \<open>getCloudFormationFailures\<close> returns, in the
  order of the stream, exactly the \<open>ResourceStatusReason\<close> strings of the events whose
  \<open>ResourceStatus\<close> ends with \<open>_FAILED\<close> and whose \<open>ResourceStatusReason\<close> is present (not nil; a
  present reason may be the empty string). For the stream
  \<open>[A:_FAILED:"reason1", B:_OK:rB, C:_FAILED:"reason3"]\<close> it returns
  \<open>["reason1", "reason3"]\<close>, whatever the reason of B is.
\<close>

theorem getCloudFormationFailures_reasons:
  "fst (getCloudFormationFailures events) =
     map (\<lambda>e. StringValue (ResourceStatusReason e))
       (filter (\<lambda>e. suffix ''_FAILED'' (StringValue (ResourceStatus e)) \<and> ResourceStatusReason e \<noteq> None)
          (concat (pages events)))
   \<and> getCloudFormationFailures
        \<lparr>pages = [[\<lparr>ResourceStatus = Some ''_FAILED'', ResourceStatusReason = Some ''reason1'', ResourceType = tA\<rparr>,
                   \<lparr>ResourceStatus = Some ''_OK'', ResourceStatusReason = rB, ResourceType = tB\<rparr>,
                   \<lparr>ResourceStatus = Some ''_FAILED'', ResourceStatusReason = Some ''reason3'', ResourceType = tC\<rparr>]],
         pageError = None\<rparr> = ([''reason1'', ''reason3''], None)"
proof
  show "fst (getCloudFormationFailures events) =
     map (\<lambda>e. StringValue (ResourceStatusReason e))
       (filter (\<lambda>e. suffix ''_FAILED'' (StringValue (ResourceStatus e)) \<and> ResourceStatusReason e \<noteq> None)
          (concat (pages events)))"
    by (simp add: getCloudFormationFailures_def ListStackEvents_fold fold_collect isFailedEvent_def
          HasSuffix_suffix)
next
  show "getCloudFormationFailures
        \<lparr>pages = [[\<lparr>ResourceStatus = Some ''_FAILED'', ResourceStatusReason = Some ''reason1'', ResourceType = tA\<rparr>,
                   \<lparr>ResourceStatus = Some ''_OK'', ResourceStatusReason = rB, ResourceType = tB\<rparr>,
                   \<lparr>ResourceStatus = Some ''_FAILED'', ResourceStatusReason = Some ''reason3'', ResourceType = tC\<rparr>]],
         pageError = None\<rparr> = ([''reason1'', ''reason3''], None)"
    by (simp add: getCloudFormationFailures_def ListStackEvents_fold isFailedEvent_def HasSuffix_def
          StringValue_def)
qed

text \<open>
  The theorem at a stream of two pages whose listing then fails: the reason of the first
  event is collected, the event without a reason is skipped.
\<close>

theorem getCloudFormationFailures_reasons_witness:
  "fst (getCloudFormationFailures
     \<lparr>pages = [[\<lparr>ResourceStatus = Some ''CREATE_FAILED'', ResourceStatusReason = Some ''boom'', ResourceType = None\<rparr>],
               [\<lparr>ResourceStatus = Some ''CREATE_FAILED'', ResourceStatusReason = None, ResourceType = None\<rparr>]],
      pageError = Some (RemoteError ''Throttling'')\<rparr>) = [''boom'']"
  using getCloudFormationFailures_reasons
    [of "\<lparr>pages = [[\<lparr>ResourceStatus = Some ''CREATE_FAILED'', ResourceStatusReason = Some ''boom'', ResourceType = None\<rparr>],
               [\<lparr>ResourceStatus = Some ''CREATE_FAILED'', ResourceStatusReason = None, ResourceType = None\<rparr>]],
      pageError = Some (RemoteError ''Throttling'')\<rparr>"]
  by (simp add: suffix_to_prefix StringValue_def)

text \<open>
  Claim C3 as stated fails: a \<open>CREATE_FAILED\<close> event whose reason is present but empty passes
  the test \<open>event.ResourceStatusReason != nil\<close>, so its empty reason is returned, where the
  classifier of the specification returns nothing.
\<close>

theorem getCloudFormationFailures_empty_reason_counterexample:
  "getCloudFormationFailures
     \<lparr>pages = [[\<lparr>ResourceStatus = Some ''CREATE_FAILED'', ResourceStatusReason = Some [], ResourceType = None\<rparr>]],
      pageError = None\<rparr> = ([[]], None)
   \<and> spec_CreateFailureReasons
       [\<lparr>ResourceStatus = Some ''CREATE_FAILED'', ResourceStatusReason = Some [], ResourceType = None\<rparr>] = []"
  by (simp add: getCloudFormationFailures_def ListStackEvents_fold isFailedEvent_def HasSuffix_def
        StringValue_def spec_CreateFailureReasons_def)

text \<open>
  Claim C4, as amended. For every event stream, \<open>getCloudFormationRollbackReasons\<close> returns,
  in the order of the stream, exactly the reasons of the events whose \<open>ResourceStatusReason\<close>
  is present (not nil) and whose \<open>ResourceStatus\<close> ends with \<open>_FAILED\<close> or starts with
  \<open>ROLLBACK_\<close>. For the stream \<open>[A:ROLLBACK_IN_PROGRESS:"r1", B:UPDATE_FAILED:"r2",
  C:ROLLBACK_COMPLETE:nil]\<close> it returns \<open>["r1", "r2"]\<close>: C is left out because it has no reason.
\<close>

theorem getCloudFormationRollbackReasons_reasons:
  "fst (getCloudFormationRollbackReasons events) =
     map (\<lambda>e. StringValue (ResourceStatusReason e))
       (filter (\<lambda>e. (suffix ''_FAILED'' (StringValue (ResourceStatus e)) \<or>
                      prefix ''ROLLBACK_'' (StringValue (ResourceStatus e))) \<and>
                     ResourceStatusReason e \<noteq> None)
          (concat (pages events)))
   \<and> getCloudFormationRollbackReasons
        \<lparr>pages = [[\<lparr>ResourceStatus = Some ''ROLLBACK_IN_PROGRESS'', ResourceStatusReason = Some ''r1'', ResourceType = tA\<rparr>,
                   \<lparr>ResourceStatus = Some ''UPDATE_FAILED'', ResourceStatusReason = Some ''r2'', ResourceType = tB\<rparr>,
                   \<lparr>ResourceStatus = Some ''ROLLBACK_COMPLETE'', ResourceStatusReason = None, ResourceType = tC\<rparr>]],
         pageError = None\<rparr> = ([''r1'', ''r2''], None)"
proof
  have "\<And>e. (isFailedEvent e \<or> isRollbackEvent e) =
      ((suffix ''_FAILED'' (StringValue (ResourceStatus e)) \<or>
        prefix ''ROLLBACK_'' (StringValue (ResourceStatus e))) \<and> ResourceStatusReason e \<noteq> None)"
    by (auto simp: isFailedEvent_def isRollbackEvent_def HasSuffix_suffix HasPrefix_prefix)
  then show "fst (getCloudFormationRollbackReasons events) =
     map (\<lambda>e. StringValue (ResourceStatusReason e))
       (filter (\<lambda>e. (suffix ''_FAILED'' (StringValue (ResourceStatus e)) \<or>
                      prefix ''ROLLBACK_'' (StringValue (ResourceStatus e))) \<and>
                     ResourceStatusReason e \<noteq> None)
          (concat (pages events)))"
    by (simp add: getCloudFormationRollbackReasons_def ListStackEvents_fold fold_collect)
next
  show "getCloudFormationRollbackReasons
        \<lparr>pages = [[\<lparr>ResourceStatus = Some ''ROLLBACK_IN_PROGRESS'', ResourceStatusReason = Some ''r1'', ResourceType = tA\<rparr>,
                   \<lparr>ResourceStatus = Some ''UPDATE_FAILED'', ResourceStatusReason = Some ''r2'', ResourceType = tB\<rparr>,
                   \<lparr>ResourceStatus = Some ''ROLLBACK_COMPLETE'', ResourceStatusReason = None, ResourceType = tC\<rparr>]],
         pageError = None\<rparr> = ([''r1'', ''r2''], None)"
    by (simp add: getCloudFormationRollbackReasons_def ListStackEvents_fold isFailedEvent_def
          isRollbackEvent_def HasSuffix_def HasPrefix_def StringValue_def)
qed

theorem getCloudFormationRollbackReasons_reasons_witness:
  "fst (getCloudFormationRollbackReasons
     \<lparr>pages = [[\<lparr>ResourceStatus = Some ''ROLLBACK_IN_PROGRESS'', ResourceStatusReason = Some ''r1'', ResourceType = None\<rparr>],
               [\<lparr>ResourceStatus = Some ''CREATE_COMPLETE'', ResourceStatusReason = Some ''done'', ResourceType = None\<rparr>,
                \<lparr>ResourceStatus = Some ''CREATE_FAILED'', ResourceStatusReason = Some ''r2'', ResourceType = None\<rparr>]],
      pageError = None\<rparr>) = [''r1'', ''r2'']"
  using getCloudFormationRollbackReasons_reasons
    [of "\<lparr>pages = [[\<lparr>ResourceStatus = Some ''ROLLBACK_IN_PROGRESS'', ResourceStatusReason = Some ''r1'', ResourceType = None\<rparr>],
               [\<lparr>ResourceStatus = Some ''CREATE_COMPLETE'', ResourceStatusReason = Some ''done'', ResourceType = None\<rparr>,
                \<lparr>ResourceStatus = Some ''CREATE_FAILED'', ResourceStatusReason = Some ''r2'', ResourceType = None\<rparr>]],
      pageError = None\<rparr>"]
  by (simp add: suffix_to_prefix StringValue_def)

text \<open>
  Claim C4 as stated fails on its own example when the reason of C is an empty string that
  is present: C passes \<open>isRollbackEvent\<close> and its empty reason is returned as a third
  element, where the classifier of the specification returns two reasons.
\<close>

theorem getCloudFormationRollbackReasons_empty_reason_counterexample:
  "getCloudFormationRollbackReasons
     \<lparr>pages = [[\<lparr>ResourceStatus = Some ''ROLLBACK_IN_PROGRESS'', ResourceStatusReason = Some ''r1'', ResourceType = None\<rparr>,
                \<lparr>ResourceStatus = Some ''UPDATE_FAILED'', ResourceStatusReason = Some ''r2'', ResourceType = None\<rparr>,
                \<lparr>ResourceStatus = Some ''ROLLBACK_COMPLETE'', ResourceStatusReason = Some [], ResourceType = None\<rparr>]],
      pageError = None\<rparr> = ([''r1'', ''r2'', []], None)
   \<and> spec_RollbackReasons
       [\<lparr>ResourceStatus = Some ''ROLLBACK_IN_PROGRESS'', ResourceStatusReason = Some ''r1'', ResourceType = None\<rparr>,
        \<lparr>ResourceStatus = Some ''UPDATE_FAILED'', ResourceStatusReason = Some ''r2'', ResourceType = None\<rparr>,
        \<lparr>ResourceStatus = Some ''ROLLBACK_COMPLETE'', ResourceStatusReason = Some [], ResourceType = None\<rparr>]
       = [''r1'', ''r2'']"
  by (simp add: getCloudFormationRollbackReasons_def ListStackEvents_fold isFailedEvent_def
        isRollbackEvent_def HasSuffix_def HasPrefix_def StringValue_def spec_RollbackReasons_def
        suffix_to_prefix)

text \<open>
  Claim C5, as amended. For every event stream, \<open>getCloudFormationDeletionReasons\<close> returns,
  in the order of the stream, exactly the reasons of the events whose \<open>ResourceStatusReason\<close>
  is present (not nil) and that either have a \<open>ResourceStatus\<close> ending with \<open>_FAILED\<close> or
  are \<open>DELETE_IN_PROGRESS\<close> on a resource of type \<open>AWS::CloudFormation::Stack\<close>. The
  delete-in-progress event of the stack itself is returned; the delete-in-progress event of a
  nested resource of another type is not.
\<close>

theorem getCloudFormationDeletionReasons_reasons:
  "fst (getCloudFormationDeletionReasons events) =
     map (\<lambda>e. StringValue (ResourceStatusReason e))
       (filter (\<lambda>e. ResourceStatusReason e \<noteq> None \<and>
                     (suffix ''_FAILED'' (StringValue (ResourceStatus e)) \<or>
                      StringValue (ResourceStatus e) = ''DELETE_IN_PROGRESS'' \<and>
                      StringValue (ResourceType e) = ''AWS::CloudFormation::Stack''))
          (concat (pages events)))
   \<and> getCloudFormationDeletionReasons
        \<lparr>pages = [[\<lparr>ResourceStatus = Some ''DELETE_IN_PROGRESS'', ResourceStatusReason = Some ''nested'',
                    ResourceType = Some ''AWS::S3::Bucket''\<rparr>,
                   \<lparr>ResourceStatus = Some ''DELETE_IN_PROGRESS'', ResourceStatusReason = Some ''User Initiated'',
                    ResourceType = Some ''AWS::CloudFormation::Stack''\<rparr>]],
         pageError = None\<rparr> = ([''User Initiated''], None)"
proof
  have "\<And>e. (isFailedEvent e \<or> isStackDeletionEvent e) =
      (ResourceStatusReason e \<noteq> None \<and>
        (suffix ''_FAILED'' (StringValue (ResourceStatus e)) \<or>
         StringValue (ResourceStatus e) = ''DELETE_IN_PROGRESS'' \<and>
         StringValue (ResourceType e) = ''AWS::CloudFormation::Stack''))"
    by (auto simp: isFailedEvent_def isStackDeletionEvent_def HasSuffix_suffix)
  then show "fst (getCloudFormationDeletionReasons events) =
     map (\<lambda>e. StringValue (ResourceStatusReason e))
       (filter (\<lambda>e. ResourceStatusReason e \<noteq> None \<and>
                     (suffix ''_FAILED'' (StringValue (ResourceStatus e)) \<or>
                      StringValue (ResourceStatus e) = ''DELETE_IN_PROGRESS'' \<and>
                      StringValue (ResourceType e) = ''AWS::CloudFormation::Stack''))
          (concat (pages events)))"
    by (simp add: getCloudFormationDeletionReasons_def ListStackEvents_fold fold_collect)
next
  show "getCloudFormationDeletionReasons
        \<lparr>pages = [[\<lparr>ResourceStatus = Some ''DELETE_IN_PROGRESS'', ResourceStatusReason = Some ''nested'',
                    ResourceType = Some ''AWS::S3::Bucket''\<rparr>,
                   \<lparr>ResourceStatus = Some ''DELETE_IN_PROGRESS'', ResourceStatusReason = Some ''User Initiated'',
                    ResourceType = Some ''AWS::CloudFormation::Stack''\<rparr>]],
         pageError = None\<rparr> = ([''User Initiated''], None)"
    by (simp add: getCloudFormationDeletionReasons_def ListStackEvents_fold isFailedEvent_def
          isStackDeletionEvent_def HasSuffix_def StringValue_def)
qed

theorem getCloudFormationDeletionReasons_reasons_witness:
  "fst (getCloudFormationDeletionReasons
     \<lparr>pages = [[\<lparr>ResourceStatus = Some ''DELETE_FAILED'', ResourceStatusReason = Some ''in use'',
                 ResourceType = Some ''AWS::EC2::VPC''\<rparr>],
               [\<lparr>ResourceStatus = Some ''DELETE_FAILED'', ResourceStatusReason = None,
                 ResourceType = Some ''AWS::EC2::Subnet''\<rparr>]],
      pageError = None\<rparr>) = [''in use'']"
  using getCloudFormationDeletionReasons_reasons
    [of "\<lparr>pages = [[\<lparr>ResourceStatus = Some ''DELETE_FAILED'', ResourceStatusReason = Some ''in use'',
                 ResourceType = Some ''AWS::EC2::VPC''\<rparr>],
               [\<lparr>ResourceStatus = Some ''DELETE_FAILED'', ResourceStatusReason = None,
                 ResourceType = Some ''AWS::EC2::Subnet''\<rparr>]],
      pageError = None\<rparr>"]
  by (simp add: suffix_to_prefix StringValue_def)

text \<open>
  Claim C5 as stated fails: the delete-in-progress event of the stack itself with a reason
  that is present but empty passes \<open>isStackDeletionEvent\<close>, so its empty reason is returned,
  where the classifier of the specification, which asks for a non-empty reason, returns
  nothing.
\<close>

theorem getCloudFormationDeletionReasons_empty_reason_counterexample:
  "getCloudFormationDeletionReasons
     \<lparr>pages = [[\<lparr>ResourceStatus = Some ''DELETE_IN_PROGRESS'', ResourceStatusReason = Some [],
                 ResourceType = Some ''AWS::CloudFormation::Stack''\<rparr>]],
      pageError = None\<rparr> = ([[]], None)
   \<and> spec_DeletionReasons
       [\<lparr>ResourceStatus = Some ''DELETE_IN_PROGRESS'', ResourceStatusReason = Some [],
         ResourceType = Some ''AWS::CloudFormation::Stack''\<rparr>] = []"
  by (simp add: getCloudFormationDeletionReasons_def ListStackEvents_fold isFailedEvent_def
        isStackDeletionEvent_def HasSuffix_def StringValue_def spec_DeletionReasons_def
        suffix_to_prefix)

subsection \<open>Pagination\<close>

text \<open>
  Claim C8. A listing whose pages are all fetched is walked to its last page: the event
  lister calls its callback on every record of every page exactly once, page 1's records
  before page 2's and so on (the callback that logs its argument ends with the log
  \<open>concat ps\<close>, and any callback is folded over \<open>concat ps\<close>); the callback of
  \<open>StackSetOperationSucceeded\<close> collects the summaries of every page in page order, a nil page
  adding nothing; and both end without an error. With two records on page 1 and one on page
  2, three records are processed.
\<close>

theorem pagination_visits_every_record:
  "ListStackEventsForOperation \<lparr>pages = ps, pageError = None\<rparr> (\<lambda>e visited. visited @ [e]) []
     = (concat ps, None)
   \<and> ListStackEventsForOperation \<lparr>pages = ps, pageError = None\<rparr> fn s = (fold fn (concat ps) s, None)
   \<and> ListStackSetOperationResultsPages \<lparr>pages = rs, pageError = None\<rparr> collectSummaries []
     = (concat (map (\<lambda>page. case page of None \<Rightarrow> [] | Some pg \<Rightarrow> Summaries pg) rs), None)
   \<and> ListStackEventsForOperation \<lparr>pages = [[e1, e2], [e3]], pageError = None\<rparr> (\<lambda>e visited. visited @ [e]) []
     = ([e1, e2, e3], None)
   \<and> length (fst (ListStackSetOperationResultsPages
        \<lparr>pages = [Some \<lparr>Summaries = [s1, s2]\<rparr>, Some \<lparr>Summaries = [s3]\<rparr>], pageError = None\<rparr>
        collectSummaries [])) = 3"
proof -
  have log: "fold (\<lambda>e visited. visited @ [e]) es acc = acc @ es" for es :: "StackEvent list" and acc
    by (induction es arbitrary: acc) simp_all
  show ?thesis
    by (simp add: ListStackEvents_fold ListStackSetOperationResults_collect log)
qed

theorem pagination_visits_every_record_witness:
  "ListStackEventsForOperation
     \<lparr>pages = [[\<lparr>ResourceStatus = Some ''CREATE_FAILED'', ResourceStatusReason = Some ''a'', ResourceType = None\<rparr>,
                \<lparr>ResourceStatus = Some ''CREATE_COMPLETE'', ResourceStatusReason = None, ResourceType = None\<rparr>],
               [\<lparr>ResourceStatus = Some ''DELETE_FAILED'', ResourceStatusReason = Some ''b'', ResourceType = None\<rparr>]],
      pageError = None\<rparr>
     (\<lambda>e n. Suc n) (0::nat) = (3, None)"
  using pagination_visits_every_record
    [of "[[\<lparr>ResourceStatus = Some ''CREATE_FAILED'', ResourceStatusReason = Some ''a'', ResourceType = None\<rparr>,
           \<lparr>ResourceStatus = Some ''CREATE_COMPLETE'', ResourceStatusReason = None, ResourceType = None\<rparr>],
          [\<lparr>ResourceStatus = Some ''DELETE_FAILED'', ResourceStatusReason = Some ''b'', ResourceType = None\<rparr>]]"
        "\<lambda>e n. Suc n" "0::nat"]
  by simp

subsection \<open>The poll loop\<close>

lemma elapsedAt_mono: "elapsedAt conf b n \<le> elapsedAt conf b (n + k)"
  by (induction k) (simp_all add: le_SucI trans_le_add1)

lemma pollLoop_reaches_target:
  assumes "list_all (\<lambda>s. status s \<in> set (Pending conf) \<and> status s \<notin> set (Target conf)) prior"
    and "status t \<in> set (Target conf)"
    and "elapsedAt conf b (n + length prior) \<le> Timeout conf"
  shows "pollLoop conf b n (elapsedAt conf b n) lastSeen (map Refreshed (prior @ [t])) = Some (Some t, None)"
  using assms
proof (induction prior arbitrary: n lastSeen)
  case Nil
  then show ?case by simp
next
  case (Cons s prior)
  have "elapsedAt conf b n \<le> elapsedAt conf b (n + length (s # prior))"
    by (rule elapsedAt_mono)
  with Cons.prems(3) have now: "\<not> Timeout conf < elapsedAt conf b n" by simp
  from Cons.prems(1) have s: "status s \<in> set (Pending conf)" "status s \<notin> set (Target conf)"
    and rest: "list_all (\<lambda>s. status s \<in> set (Pending conf) \<and> status s \<notin> set (Target conf)) prior"
    by simp_all
  from Cons.prems(3) have later: "elapsedAt conf b (Suc n + length prior) \<le> Timeout conf" by simp
  have "pollLoop conf b (Suc n) (elapsedAt conf b (Suc n)) (Some s) (map Refreshed (prior @ [t]))
      = Some (Some t, None)"
    by (rule Cons.IH [OF rest Cons.prems(2) later])
  with now s show ?case by simp
qed

text \<open>A wait that ends without an error ended on a target status.\<close>

lemma pollLoop_no_error_is_target:
  "pollLoop conf b n el lastSeen answers = Some (Some s, None) \<Longrightarrow> status s \<in> set (Target conf)"
  by (induction answers arbitrary: n el lastSeen) (auto split: if_splits refresh.splits)

lemma pollLoop_lastSeen_polled:
  "pollLoop conf b n el lastSeen answers = Some (Some s, err) \<Longrightarrow>
     lastSeen = Some s \<or> Refreshed s \<in> set answers"
proof (induction answers arbitrary: n el lastSeen)
  case Nil
  then show ?case by (simp split: if_splits)
next
  case (Cons r rs)
  show ?case
  proof (cases r)
    case (RefreshError e)
    with Cons.prems show ?thesis by (simp split: if_splits)
  next
    case (Refreshed s')
    show ?thesis
    proof (cases "\<not> Timeout conf < el \<and> status s' \<notin> set (Target conf) \<and> status s' \<in> set (Pending conf)")
      case True
      with Cons.prems Refreshed
      have "pollLoop conf b (Suc n) (el + max (MinTimeout conf) (b n)) (Some s') rs = Some (Some s, err)"
        by simp
      from Cons.IH [OF this] Refreshed show ?thesis by auto
    next
      case False
      with Cons.prems Refreshed show ?thesis by (auto split: if_splits)
    qed
  qed
qed

lemma WaitForState_no_error_is_target:
  assumes "WaitForState conf b answers = Some (Some obj, None)"
  shows "\<exists>s. raw s = obj \<and> status s \<in> set (Target conf) \<and> Refreshed s \<in> set answers"
proof -
  from assms obtain lastSeen where
    run: "pollLoop conf b 0 (Delay conf) None answers = Some (lastSeen, None)"
    and obj: "map_option raw lastSeen = Some obj"
    by (auto simp: WaitForState_def)
  from obj obtain s where s: "lastSeen = Some s" "raw s = obj" by auto
  from run s(1) have "status s \<in> set (Target conf)"
    by (auto dest: pollLoop_no_error_is_target)
  moreover from run s(1) have "Refreshed s \<in> set answers"
    by (auto dest: pollLoop_lastSeen_polled)
  ultimately show ?thesis using s(2) by blast
qed

text \<open>In every policy of the package the pending and the target statuses are disjoint.\<close>

lemma stateConf_disjoint:
  "set (Pending ChangeSetCreated_stateConf) \<inter> set (Target ChangeSetCreated_stateConf) = {}"
  "set (Pending (StackSetOperationSucceeded_stateConf timeout)) \<inter>
     set (Target (StackSetOperationSucceeded_stateConf timeout)) = {}"
  "set (Pending (StackCreated_stateConf timeout)) \<inter> set (Target (StackCreated_stateConf timeout)) = {}"
  "set (Pending (StackUpdated_stateConf timeout)) \<inter> set (Target (StackUpdated_stateConf timeout)) = {}"
  "set (Pending (StackDeleted_stateConf timeout)) \<inter> set (Target (StackDeleted_stateConf timeout)) = {}"
  by (simp_all add: ChangeSetCreated_stateConf_def StackSetOperationSucceeded_stateConf_def
        StackCreated_stateConf_def StackUpdated_stateConf_def StackDeleted_stateConf_def)

text \<open>
  A stack set operation that the wait hands back \<open>FAILED\<close> comes with an error: \<open>FAILED\<close> is
  not a target of \<open>StackSetOperationSucceeded\<close>.
\<close>

lemma StackSetOperation_failed_has_error:
  assumes "WaitForState (StackSetOperationSucceeded_stateConf timeout) b
             (map StackSetOperationStatus_answer xs) = Some (Some (StackSetOperationObject output), waitErr)"
    and "StringValue (Operation_Status output) = ''FAILED''"
  shows "waitErr \<noteq> None"
proof
  assume "waitErr = None"
  with assms(1) obtain s where s: "raw s = StackSetOperationObject output"
      "status s \<in> set (Target (StackSetOperationSucceeded_stateConf timeout))"
      "Refreshed s \<in> set (map StackSetOperationStatus_answer xs)"
    by (auto dest: WaitForState_no_error_is_target)
  from s(3) obtain operation where "s = StackSetOperationStatus_snapshot operation"
    by (auto simp: StackSetOperationStatus_answer_def split: sum.splits)
  with s(1) have "status s = StringValue (Operation_Status output)"
    by (simp add: StackSetOperationStatus_snapshot_def)
  with s(2) assms(2) show False
    by (simp add: StackSetOperationSucceeded_stateConf_def)
qed

subsection \<open>The waiters\<close>

lemma StackCreated_wait_error: "StackCreated (outputRaw, Some e) events = (None, Some e)"
  by (simp add: StackCreated_def)

lemma StackUpdated_wait_error: "StackUpdated (outputRaw, Some e) events = (None, Some e)"
  by (simp add: StackUpdated_def)

lemma StackDeleted_wait_error: "StackDeleted (outputRaw, Some e) events = (None, Some e)"
  by (simp add: StackDeleted_def)

lemma StackCreated_fst: "fst (StackCreated (Some (StackObject stack), None) events) = Some stack"
  by (simp add: StackCreated_def Let_def split: prod.splits option.splits)

lemma StackUpdated_fst: "fst (StackUpdated (Some (StackObject stack), None) events) = Some stack"
  by (simp add: StackUpdated_def Let_def split: prod.splits option.splits)

lemma StackDeleted_fst: "fst (StackDeleted (Some (StackObject stack), None) events) = Some stack"
  by (simp add: StackDeleted_def Let_def split: prod.splits option.splits)

lemma StackCreated_snd:
  "(snd (StackCreated (Some (StackObject stack), None) events) = None) =
     (StringValue (StackStatus stack) \<notin> set [''CREATE_FAILED'', ''ROLLBACK_COMPLETE'', ''ROLLBACK_FAILED'',
        ''DELETE_COMPLETE'', ''DELETE_FAILED''])"
  by (simp add: StackCreated_def Let_def split: prod.splits option.splits)

lemma StackUpdated_snd:
  "(snd (StackUpdated (Some (StackObject stack), None) events) = None) =
     (StringValue (StackStatus stack) \<notin> set [''UPDATE_ROLLBACK_COMPLETE'', ''UPDATE_ROLLBACK_FAILED''])"
  by (simp add: StackUpdated_def Let_def split: prod.splits option.splits)

lemma StackDeleted_snd:
  "(snd (StackDeleted (Some (StackObject stack), None) events) = None) =
     (StringValue (StackStatus stack) \<noteq> ''DELETE_FAILED'')"
  by (simp add: StackDeleted_def Let_def split: prod.splits option.splits)

lemma ChangeSetCreated_output:
  "ChangeSetCreated setLast (Some (ChangeSetObject output), err) =
     (Some output,
      if StringValue (Status output) = ''FAILED''
      then SetLastError setLast err (ErrorsNew (StringValue (StatusReason output))) else err)"
  by (simp add: ChangeSetCreated_def)

text \<open>
  Claim C1, as amended. \<open>ChangeSetCreated\<close> returns the snapshot the wait yields alongside the
  wait's error, whether that error is nil or not. The stack waiters (\<open>StackCreated\<close>,
  \<open>StackUpdated\<close>, \<open>StackDeleted\<close>) return the snapshot only when the wait ends without an
  error, that is on a target status; when the wait ends with an error (timeout, or a hard
  error of the refresher) they return a nil snapshot alongside that error, whatever the loop
  had observed.
\<close>

theorem waiters_returned_snapshot:
  "fst (ChangeSetCreated setLast (Some (ChangeSetObject output), err)) = Some output
   \<and> fst (StackCreated (Some (StackObject stack), None) events) = Some stack
   \<and> fst (StackUpdated (Some (StackObject stack), None) events) = Some stack
   \<and> fst (StackDeleted (Some (StackObject stack), None) events) = Some stack
   \<and> StackCreated (outputRaw, Some e) events = (None, Some e)
   \<and> StackUpdated (outputRaw, Some e) events = (None, Some e)
   \<and> StackDeleted (outputRaw, Some e) events = (None, Some e)"
  by (simp add: ChangeSetCreated_output StackCreated_fst StackUpdated_fst StackDeleted_fst
        StackCreated_wait_error StackUpdated_wait_error StackDeleted_wait_error)

theorem waiters_returned_snapshot_witness:
  "fst (ChangeSetCreated (\<lambda>e l. e)
          (Some (ChangeSetObject \<lparr>Status = Some ''CREATE_IN_PROGRESS'', StatusReason = None\<rparr>), Some TimeoutError))
     = Some \<lparr>Status = Some ''CREATE_IN_PROGRESS'', StatusReason = None\<rparr>
   \<and> StackDeleted (Some (StackObject \<lparr>StackId = Some ''s'', StackStatus = Some ''DELETE_IN_PROGRESS''\<rparr>),
                    Some TimeoutError) \<lparr>pages = [], pageError = None\<rparr>
     = (None, Some TimeoutError)"
  using waiters_returned_snapshot
    [of "\<lambda>e l. e" "\<lparr>Status = Some ''CREATE_IN_PROGRESS'', StatusReason = None\<rparr>" "Some TimeoutError"
        "\<lparr>StackId = Some ''s'', StackStatus = Some ''DELETE_IN_PROGRESS''\<rparr>"
        "\<lparr>pages = [], pageError = None\<rparr>"
        "Some (StackObject \<lparr>StackId = Some ''s'', StackStatus = Some ''DELETE_IN_PROGRESS''\<rparr>)"
        TimeoutError]
  by simp

text \<open>
  Claim C1 as stated fails for the stack waiters. A create wait with a timeout of 10 seconds
  polls once at second 10, observes \<open>CREATE_IN_PROGRESS\<close>, and finds the timeout exceeded at
  the next poll: the loop ends with \<open>TimeoutError\<close> and that snapshot, but \<open>StackCreated\<close> returns
  a nil stack. The same happens when the second poll is a hard error of the refresher.
\<close>

theorem StackCreated_drops_snapshot_counterexample:
  "WaitForState (StackCreated_stateConf 10) (\<lambda>n. 0)
      [Refreshed (StackStatus_snapshot \<lparr>StackId = Some ''s'', StackStatus = Some ''CREATE_IN_PROGRESS''\<rparr>),
       Refreshed (StackStatus_snapshot \<lparr>StackId = Some ''s'', StackStatus = Some ''CREATE_IN_PROGRESS''\<rparr>)]
     = Some (Some (StackObject \<lparr>StackId = Some ''s'', StackStatus = Some ''CREATE_IN_PROGRESS''\<rparr>), Some TimeoutError)
   \<and> StackCreated
        (Some (StackObject \<lparr>StackId = Some ''s'', StackStatus = Some ''CREATE_IN_PROGRESS''\<rparr>), Some TimeoutError)
        \<lparr>pages = [], pageError = None\<rparr>
     = (None, Some TimeoutError)
   \<and> WaitForState (StackCreated_stateConf 1800) (\<lambda>n. 0)
      [Refreshed (StackStatus_snapshot \<lparr>StackId = Some ''s'', StackStatus = Some ''CREATE_IN_PROGRESS''\<rparr>),
       RefreshError (RemoteError ''Throttling'')]
     = Some (Some (StackObject \<lparr>StackId = Some ''s'', StackStatus = Some ''CREATE_IN_PROGRESS''\<rparr>),
             Some (RemoteError ''Throttling''))
   \<and> StackCreated
        (Some (StackObject \<lparr>StackId = Some ''s'', StackStatus = Some ''CREATE_IN_PROGRESS''\<rparr>),
         Some (RemoteError ''Throttling''))
        \<lparr>pages = [], pageError = None\<rparr>
     = (None, Some (RemoteError ''Throttling''))"
  by (simp add: WaitForState_def StackCreated_stateConf_def StackStatus_snapshot_def StringValue_def
        StackCreated_def)

text \<open>
  Claim C2, as amended. For every poll policy and every status sequence whose last element
  is in \<open>Target\<close> and all of whose prior elements are in \<open>Pending\<close> and not in \<open>Target\<close>, with the
  time of the last poll below \<open>Timeout\<close>, the poll loop ends on that last status and yields its
  snapshot with no error: membership in the target set alone ends the loop. The waiters then
  return that snapshot. \<open>ChangeSetCreated\<close> returns it with no error. The stack waiters return
  it with no error only when the status is not a failure status: \<open>StackCreated\<close> adds an error
  for \<open>CREATE_FAILED\<close>, \<open>ROLLBACK_COMPLETE\<close>, \<open>ROLLBACK_FAILED\<close>, \<open>DELETE_COMPLETE\<close> and
  \<open>DELETE_FAILED\<close>, \<open>StackUpdated\<close> for \<open>UPDATE_ROLLBACK_COMPLETE\<close> and \<open>UPDATE_ROLLBACK_FAILED\<close>,
  \<open>StackDeleted\<close> for \<open>DELETE_FAILED\<close>.
\<close>

theorem wait_reaches_target:
  assumes "list_all (\<lambda>s. status s \<in> set (Pending conf) \<and> status s \<notin> set (Target conf)) prior"
    and "status t \<in> set (Target conf)"
    and "elapsedAt conf backoff (length prior) < Timeout conf"
  shows "WaitForState conf backoff (map Refreshed (prior @ [t])) = Some (Some (raw t), None)
   \<and> ChangeSetCreated setLast (Some (ChangeSetObject output), None) = (Some output, None)
   \<and> fst (StackCreated (Some (StackObject stack), None) events) = Some stack
   \<and> (snd (StackCreated (Some (StackObject stack), None) events) = None) =
       (StringValue (StackStatus stack) \<notin> set [''CREATE_FAILED'', ''ROLLBACK_COMPLETE'', ''ROLLBACK_FAILED'',
          ''DELETE_COMPLETE'', ''DELETE_FAILED''])
   \<and> fst (StackUpdated (Some (StackObject stack), None) events) = Some stack
   \<and> (snd (StackUpdated (Some (StackObject stack), None) events) = None) =
       (StringValue (StackStatus stack) \<notin> set [''UPDATE_ROLLBACK_COMPLETE'', ''UPDATE_ROLLBACK_FAILED''])
   \<and> fst (StackDeleted (Some (StackObject stack), None) events) = Some stack
   \<and> (snd (StackDeleted (Some (StackObject stack), None) events) = None) =
       (StringValue (StackStatus stack) \<noteq> ''DELETE_FAILED'')"
proof -
  from assms(3) have "elapsedAt conf backoff (0 + length prior) \<le> Timeout conf" by simp
  from pollLoop_reaches_target [OF assms(1) assms(2) this, of None]
  have "WaitForState conf backoff (map Refreshed (prior @ [t])) = Some (Some (raw t), None)"
    by (simp add: WaitForState_def)
  moreover have "ChangeSetCreated setLast (Some (ChangeSetObject output), None) = (Some output, None)"
    by (simp add: ChangeSetCreated_output SetLastError_def)
  ultimately show ?thesis
    using StackCreated_fst StackCreated_snd StackUpdated_fst StackUpdated_snd
      StackDeleted_fst StackDeleted_snd
    by blast
qed

theorem wait_reaches_target_witness:
  "WaitForState (StackCreated_stateConf 1800) (\<lambda>n. 2 * n)
     (map Refreshed
        ([StackStatus_snapshot \<lparr>StackId = Some ''s'', StackStatus = Some ''CREATE_IN_PROGRESS''\<rparr>,
          StackStatus_snapshot \<lparr>StackId = Some ''s'', StackStatus = Some ''CREATE_IN_PROGRESS''\<rparr>]
         @ [StackStatus_snapshot \<lparr>StackId = Some ''s'', StackStatus = Some ''CREATE_COMPLETE''\<rparr>]))
     = Some (Some (StackObject \<lparr>StackId = Some ''s'', StackStatus = Some ''CREATE_COMPLETE''\<rparr>), None)
   \<and> StackCreated (Some (StackObject \<lparr>StackId = Some ''s'', StackStatus = Some ''CREATE_COMPLETE''\<rparr>), None)
        \<lparr>pages = [], pageError = None\<rparr>
     = (Some \<lparr>StackId = Some ''s'', StackStatus = Some ''CREATE_COMPLETE''\<rparr>, None)"
proof -
  let ?conf = "StackCreated_stateConf 1800"
  let ?p = "StackStatus_snapshot \<lparr>StackId = Some ''s'', StackStatus = Some ''CREATE_IN_PROGRESS''\<rparr>"
  let ?t = "StackStatus_snapshot \<lparr>StackId = Some ''s'', StackStatus = Some ''CREATE_COMPLETE''\<rparr>"
  have h1: "list_all (\<lambda>s. status s \<in> set (Pending ?conf) \<and> status s \<notin> set (Target ?conf)) [?p, ?p]"
    by (simp add: StackCreated_stateConf_def StackStatus_snapshot_def StringValue_def)
  have h2: "status ?t \<in> set (Target ?conf)"
    by (simp add: StackCreated_stateConf_def StackStatus_snapshot_def StringValue_def)
  have h3: "elapsedAt ?conf (\<lambda>n. 2 * n) (length [?p, ?p]) < Timeout ?conf"
    by (simp add: StackCreated_stateConf_def numeral_2_eq_2)
  show ?thesis
    using wait_reaches_target [OF h1 h2 h3,
        of "\<lambda>e l. e" "\<lparr>Status = None, StatusReason = None\<rparr>"
           "\<lparr>StackId = Some ''s'', StackStatus = Some ''CREATE_COMPLETE''\<rparr>"
           "\<lparr>pages = [], pageError = None\<rparr>"]
    by (simp add: StackStatus_snapshot_def StringValue_def prod_eq_iff)
qed

text \<open>
  Claim C2 as stated fails for \<open>StackCreated\<close>: the sequence \<open>CREATE_IN_PROGRESS\<close>,
  \<open>CREATE_FAILED\<close> ends the loop on the target \<open>CREATE_FAILED\<close> with no error, but the waiter
  returns the stack together with a failure error.
\<close>

theorem StackCreated_target_failure_counterexample:
  "WaitForState (StackCreated_stateConf 1800) (\<lambda>n. 0)
      (map Refreshed
         [StackStatus_snapshot \<lparr>StackId = Some ''s'', StackStatus = Some ''CREATE_IN_PROGRESS''\<rparr>,
          StackStatus_snapshot \<lparr>StackId = Some ''s'', StackStatus = Some ''CREATE_FAILED''\<rparr>])
     = Some (Some (StackObject \<lparr>StackId = Some ''s'', StackStatus = Some ''CREATE_FAILED''\<rparr>), None)
   \<and> StackCreated (Some (StackObject \<lparr>StackId = Some ''s'', StackStatus = Some ''CREATE_FAILED''\<rparr>), None)
        \<lparr>pages = [], pageError = None\<rparr>
     = (Some \<lparr>StackId = Some ''s'', StackStatus = Some ''CREATE_FAILED''\<rparr>,
        Some (Errorf ''failed to create CloudFormation stack (%s): %q'' [ArgS ''CREATE_FAILED'', ArgQ []]))"
  by (simp add: WaitForState_def StackCreated_stateConf_def StackStatus_snapshot_def StringValue_def
        StackCreated_def Let_def getCloudFormationFailures_def ListStackEvents_fold)

lemma lookup_error:
  "getCloudFormationFailures events = (reasons, err) \<Longrightarrow> err = pageError events"
  "getCloudFormationRollbackReasons events = (reasons, err) \<Longrightarrow> err = pageError events"
  "getCloudFormationDeletionReasons events = (reasons, err) \<Longrightarrow> err = pageError events"
  by (simp_all add: getCloudFormationFailures_def getCloudFormationRollbackReasons_def
        getCloudFormationDeletionReasons_def ListStackEvents_fold)

text \<open>What the stack waiters return on a target status when the event listing fails.\<close>

lemma StackCreated_lookup_error:
  "StackCreated (Some (StackObject stack), None) \<lparr>pages = ps, pageError = Some e\<rparr> =
     (Some stack,
      if StringValue (StackStatus stack) = ''ROLLBACK_COMPLETE'' \<or> StringValue (StackStatus stack) = ''ROLLBACK_FAILED''
      then Some (Errorf
        ''failed to create CloudFormation stack, rollback requested (%s). Got an error reading failure information: %w''
        [ArgS (StringValue (StackStatus stack)), ArgW e])
      else if StringValue (StackStatus stack) = ''DELETE_COMPLETE'' \<or> StringValue (StackStatus stack) = ''DELETE_FAILED''
      then Some (Errorf
        ''failed to create CloudFormation stack, delete requested (%s). Got an error reading failure information: %w''
        [ArgS (StringValue (StackStatus stack)), ArgW e])
      else if StringValue (StackStatus stack) = ''CREATE_FAILED''
      then Some (Errorf
        ''failed to create CloudFormation stack (%s). Got an error reading failure information: %w''
        [ArgS (StringValue (StackStatus stack)), ArgW e])
      else None)"
  by (auto simp: StackCreated_def Let_def split: prod.splits option.splits dest: lookup_error)

lemma StackUpdated_lookup_error:
  "StackUpdated (Some (StackObject stack), None) \<lparr>pages = ps, pageError = Some e\<rparr> =
     (Some stack,
      if StringValue (StackStatus stack) = ''UPDATE_ROLLBACK_COMPLETE'' \<or>
         StringValue (StackStatus stack) = ''UPDATE_ROLLBACK_FAILED''
      then Some (Errorf
        ''failed to update CloudFormation stack (%s). Got an error reading failure information: %w''
        [ArgS (StringValue (StackStatus stack)), ArgW e])
      else None)"
  by (auto simp: StackUpdated_def Let_def split: prod.splits option.splits dest: lookup_error)

lemma StackDeleted_lookup_error:
  "StackDeleted (Some (StackObject stack), None) \<lparr>pages = ps, pageError = Some e\<rparr> =
     (Some stack,
      if StringValue (StackStatus stack) = ''DELETE_FAILED''
      then Some (Errorf
        ''failed to delete CloudFormation stack (%s). Got an error reading failure information: %w''
        [ArgS (StringValue (StackStatus stack)), ArgW e])
      else None)"
  by (auto simp: StackDeleted_def Let_def split: prod.splits option.splits dest: lookup_error)

lemma StackSetOperationSucceeded_list_error:
  "StringValue (Operation_Status output) = ''FAILED'' \<Longrightarrow>
   StackSetOperationSucceeded setLast operationError stackSetName operationID
       (Some (StackSetOperationObject output), waitErr) \<lparr>pages = rs, pageError = Some e\<rparr> =
     (Some output,
      SetLastError setLast waitErr
        (Errorf ''error listing CloudFormation Stack Set (%s) Operation (%s) results: %w''
           [ArgS stackSetName, ArgS operationID, ArgW e]))"
  by (simp add: StackSetOperationSucceeded_def ListStackSetOperationResults_collect)

lemma Contains_reading:
  "Contains ''failed to create CloudFormation stack, rollback requested (%s). Got an error reading failure information: %w''
     ''(%s). Got an error reading failure information: %w''"
  "Contains ''failed to create CloudFormation stack, delete requested (%s). Got an error reading failure information: %w''
     ''(%s). Got an error reading failure information: %w''"
  "Contains ''failed to create CloudFormation stack (%s). Got an error reading failure information: %w''
     ''(%s). Got an error reading failure information: %w''"
  "Contains ''failed to update CloudFormation stack (%s). Got an error reading failure information: %w''
     ''(%s). Got an error reading failure information: %w''"
  "Contains ''failed to delete CloudFormation stack (%s). Got an error reading failure information: %w''
     ''(%s). Got an error reading failure information: %w''"
  by (simp_all add: HasPrefix_def)

text \<open>
  Claim C6. When a stack waiter has reached a failure status among its targets and the
  lookup of the failure reasons fails with an error \<open>e\<close>, the waiter returns the stack and a
  non-nil error whose format reads \<open>(%s). Got an error reading failure information: %w\<close>,
  whose \<open>%s\<close> argument is the failure status and whose \<open>%w\<close> argument, the error it wraps, is
  \<open>e\<close>. When \<open>StackSetOperationSucceeded\<close> finds the operation \<open>FAILED\<close> (a status outside its
  targets, so that the wait has ended with an error of its own) and the listing of the results
  fails with \<open>e\<close>, it wraps \<open>e\<close> in a diagnostic about the listing, hands that to \<open>SetLastError\<close>
  on the wait's error, and returns that non-nil error; and a wait that hands back a \<open>FAILED\<close>
  operation does come with an error. In no case is the lookup error dropped.
\<close>

theorem lookup_error_is_reported:
  "(StringValue (StackStatus stack) \<in> set [''CREATE_FAILED'', ''ROLLBACK_COMPLETE'', ''ROLLBACK_FAILED'',
        ''DELETE_COMPLETE'', ''DELETE_FAILED''] \<longrightarrow>
      (\<exists>fmt ferr. StackCreated (Some (StackObject stack), None) \<lparr>pages = ps, pageError = Some e\<rparr>
            = (Some stack, Some ferr)
         \<and> ferr = Errorf fmt [ArgS (StringValue (StackStatus stack)), ArgW e]
         \<and> Contains fmt ''(%s). Got an error reading failure information: %w''
         \<and> Unwrap ferr = Some e))
   \<and> (StringValue (StackStatus stack) \<in> set [''UPDATE_ROLLBACK_COMPLETE'', ''UPDATE_ROLLBACK_FAILED''] \<longrightarrow>
      (\<exists>fmt ferr. StackUpdated (Some (StackObject stack), None) \<lparr>pages = ps, pageError = Some e\<rparr>
            = (Some stack, Some ferr)
         \<and> ferr = Errorf fmt [ArgS (StringValue (StackStatus stack)), ArgW e]
         \<and> Contains fmt ''(%s). Got an error reading failure information: %w''
         \<and> Unwrap ferr = Some e))
   \<and> (StringValue (StackStatus stack) = ''DELETE_FAILED'' \<longrightarrow>
      (\<exists>fmt ferr. StackDeleted (Some (StackObject stack), None) \<lparr>pages = ps, pageError = Some e\<rparr>
            = (Some stack, Some ferr)
         \<and> ferr = Errorf fmt [ArgS (StringValue (StackStatus stack)), ArgW e]
         \<and> Contains fmt ''(%s). Got an error reading failure information: %w''
         \<and> Unwrap ferr = Some e))
   \<and> (StringValue (Operation_Status output) = ''FAILED'' \<longrightarrow>
      StackSetOperationSucceeded setLast operationError stackSetName operationID
          (Some (StackSetOperationObject output), Some waitErr) \<lparr>pages = rs, pageError = Some e\<rparr>
        = (Some output,
           Some (setLast waitErr
             (Errorf ''error listing CloudFormation Stack Set (%s) Operation (%s) results: %w''
                [ArgS stackSetName, ArgS operationID, ArgW e])))
      \<and> Unwrap (Errorf ''error listing CloudFormation Stack Set (%s) Operation (%s) results: %w''
                [ArgS stackSetName, ArgS operationID, ArgW e]) = Some e)
   \<and> (WaitForState (StackSetOperationSucceeded_stateConf timeout) backoff
          (map StackSetOperationStatus_answer answers) = Some (Some (StackSetOperationObject output), err)
        \<and> StringValue (Operation_Status output) = ''FAILED'' \<longrightarrow> err \<noteq> None)"
proof (intro conjI impI)
  assume "StringValue (StackStatus stack) \<in> set [''CREATE_FAILED'', ''ROLLBACK_COMPLETE'', ''ROLLBACK_FAILED'',
        ''DELETE_COMPLETE'', ''DELETE_FAILED'']"
  then show "\<exists>fmt ferr. StackCreated (Some (StackObject stack), None) \<lparr>pages = ps, pageError = Some e\<rparr>
            = (Some stack, Some ferr)
         \<and> ferr = Errorf fmt [ArgS (StringValue (StackStatus stack)), ArgW e]
         \<and> Contains fmt ''(%s). Got an error reading failure information: %w''
         \<and> Unwrap ferr = Some e"
    using Contains_reading(1,2,3) by (auto simp: StackCreated_lookup_error)
next
  assume "StringValue (StackStatus stack) \<in> set [''UPDATE_ROLLBACK_COMPLETE'', ''UPDATE_ROLLBACK_FAILED'']"
  then show "\<exists>fmt ferr. StackUpdated (Some (StackObject stack), None) \<lparr>pages = ps, pageError = Some e\<rparr>
            = (Some stack, Some ferr)
         \<and> ferr = Errorf fmt [ArgS (StringValue (StackStatus stack)), ArgW e]
         \<and> Contains fmt ''(%s). Got an error reading failure information: %w''
         \<and> Unwrap ferr = Some e"
    using Contains_reading(4) by (auto simp: StackUpdated_lookup_error)
next
  assume "StringValue (StackStatus stack) = ''DELETE_FAILED''"
  then show "\<exists>fmt ferr. StackDeleted (Some (StackObject stack), None) \<lparr>pages = ps, pageError = Some e\<rparr>
            = (Some stack, Some ferr)
         \<and> ferr = Errorf fmt [ArgS (StringValue (StackStatus stack)), ArgW e]
         \<and> Contains fmt ''(%s). Got an error reading failure information: %w''
         \<and> Unwrap ferr = Some e"
    using Contains_reading(5) by (auto simp: StackDeleted_lookup_error)
next
  assume "StringValue (Operation_Status output) = ''FAILED''"
  then show "StackSetOperationSucceeded setLast operationError stackSetName operationID
          (Some (StackSetOperationObject output), Some waitErr) \<lparr>pages = rs, pageError = Some e\<rparr>
        = (Some output,
           Some (setLast waitErr
             (Errorf ''error listing CloudFormation Stack Set (%s) Operation (%s) results: %w''
                [ArgS stackSetName, ArgS operationID, ArgW e])))"
    by (simp add: StackSetOperationSucceeded_list_error SetLastError_def)
next
  show "Unwrap (Errorf ''error listing CloudFormation Stack Set (%s) Operation (%s) results: %w''
                [ArgS stackSetName, ArgS operationID, ArgW e]) = Some e"
    by simp
next
  assume "WaitForState (StackSetOperationSucceeded_stateConf timeout) backoff
          (map StackSetOperationStatus_answer answers) = Some (Some (StackSetOperationObject output), err)
        \<and> StringValue (Operation_Status output) = ''FAILED''"
  then show "err \<noteq> None"
    using StackSetOperation_failed_has_error by blast
qed

text \<open>
  The theorem at a create wait that ended on \<open>ROLLBACK_FAILED\<close> while the listing of the
  events is throttled after its first page.
\<close>

theorem lookup_error_is_reported_witness:
  "\<exists>fmt ferr.
      StackCreated (Some (StackObject \<lparr>StackId = Some ''s'', StackStatus = Some ''ROLLBACK_FAILED''\<rparr>), None)
        \<lparr>pages = [[\<lparr>ResourceStatus = Some ''CREATE_FAILED'', ResourceStatusReason = Some ''boom'',
                    ResourceType = None\<rparr>]],
         pageError = Some (RemoteError ''Throttling'')\<rparr>
        = (Some \<lparr>StackId = Some ''s'', StackStatus = Some ''ROLLBACK_FAILED''\<rparr>, Some ferr)
      \<and> ferr = Errorf fmt [ArgS ''ROLLBACK_FAILED'', ArgW (RemoteError ''Throttling'')]
      \<and> Contains fmt ''(%s). Got an error reading failure information: %w''
      \<and> Unwrap ferr = Some (RemoteError ''Throttling'')"
  using lookup_error_is_reported
    [of "\<lparr>StackId = Some ''s'', StackStatus = Some ''ROLLBACK_FAILED''\<rparr>"
        "[[\<lparr>ResourceStatus = Some ''CREATE_FAILED'', ResourceStatusReason = Some ''boom'', ResourceType = None\<rparr>]]"
        "RemoteError ''Throttling''"]
  by (simp add: StringValue_def)

text \<open>
  Claim C7. When the listing of the events ends with an error, what a stack waiter returns
  does not depend on the pages that were listed before the error, hence on no reason
  accumulated from them: it is what the waiter returns when the very first fetch fails. On a
  target status the error returned is nil or built from the status and the listing error
  alone.
\<close>

theorem lookup_error_discards_reasons:
  "StackCreated w \<lparr>pages = ps, pageError = Some e\<rparr> = StackCreated w \<lparr>pages = [], pageError = Some e\<rparr>
   \<and> StackUpdated w \<lparr>pages = ps, pageError = Some e\<rparr> = StackUpdated w \<lparr>pages = [], pageError = Some e\<rparr>
   \<and> StackDeleted w \<lparr>pages = ps, pageError = Some e\<rparr> = StackDeleted w \<lparr>pages = [], pageError = Some e\<rparr>
   \<and> (case snd (StackCreated (Some (StackObject stack), None) \<lparr>pages = ps, pageError = Some e\<rparr>) of
         None \<Rightarrow> True
       | Some err \<Rightarrow> \<exists>fmt. err = Errorf fmt [ArgS (StringValue (StackStatus stack)), ArgW e])
   \<and> (case snd (StackUpdated (Some (StackObject stack), None) \<lparr>pages = ps, pageError = Some e\<rparr>) of
         None \<Rightarrow> True
       | Some err \<Rightarrow> \<exists>fmt. err = Errorf fmt [ArgS (StringValue (StackStatus stack)), ArgW e])
   \<and> (case snd (StackDeleted (Some (StackObject stack), None) \<lparr>pages = ps, pageError = Some e\<rparr>) of
         None \<Rightarrow> True
       | Some err \<Rightarrow> \<exists>fmt. err = Errorf fmt [ArgS (StringValue (StackStatus stack)), ArgW e])"
proof -
  obtain outputRaw err where w: "w = (outputRaw, err)" by (cases w)
  have c: "StackCreated w \<lparr>pages = ps, pageError = Some e\<rparr> = StackCreated w \<lparr>pages = [], pageError = Some e\<rparr>"
  proof (cases err)
    case (Some we)
    then show ?thesis by (simp add: w StackCreated_wait_error)
  next
    case None
    show ?thesis
    proof (cases outputRaw)
      case None
      then show ?thesis by (simp add: w \<open>err = None\<close> StackCreated_def)
    next
      case (Some obj)
      then show ?thesis
        by (cases obj) (simp_all add: w \<open>err = None\<close> StackCreated_lookup_error, simp_all add: StackCreated_def)
    qed
  qed
  have u: "StackUpdated w \<lparr>pages = ps, pageError = Some e\<rparr> = StackUpdated w \<lparr>pages = [], pageError = Some e\<rparr>"
  proof (cases err)
    case (Some we)
    then show ?thesis by (simp add: w StackUpdated_wait_error)
  next
    case None
    show ?thesis
    proof (cases outputRaw)
      case None
      then show ?thesis by (simp add: w \<open>err = None\<close> StackUpdated_def)
    next
      case (Some obj)
      then show ?thesis
        by (cases obj) (simp_all add: w \<open>err = None\<close> StackUpdated_lookup_error, simp_all add: StackUpdated_def)
    qed
  qed
  have d: "StackDeleted w \<lparr>pages = ps, pageError = Some e\<rparr> = StackDeleted w \<lparr>pages = [], pageError = Some e\<rparr>"
  proof (cases err)
    case (Some we)
    then show ?thesis by (simp add: w StackDeleted_wait_error)
  next
    case None
    show ?thesis
    proof (cases outputRaw)
      case None
      then show ?thesis by (simp add: w \<open>err = None\<close> StackDeleted_def)
    next
      case (Some obj)
      then show ?thesis
        by (cases obj) (simp_all add: w \<open>err = None\<close> StackDeleted_lookup_error, simp_all add: StackDeleted_def)
    qed
  qed
  show ?thesis
    by (simp add: c u d StackCreated_lookup_error StackUpdated_lookup_error StackDeleted_lookup_error)
qed

text \<open>
  The theorem at a create wait that ended on \<open>CREATE_FAILED\<close>: the first page of events holds
  the reason \<open>boom\<close>, which the lookup has accumulated when the second fetch is throttled; the
  waiter returns the error it returns when no page was listed at all.
\<close>

theorem lookup_error_discards_reasons_witness:
  "getCloudFormationFailures
     \<lparr>pages = [[\<lparr>ResourceStatus = Some ''CREATE_FAILED'', ResourceStatusReason = Some ''boom'',
                 ResourceType = None\<rparr>]],
      pageError = Some (RemoteError ''Throttling'')\<rparr> = ([''boom''], Some (RemoteError ''Throttling''))
   \<and> StackCreated (Some (StackObject \<lparr>StackId = Some ''s'', StackStatus = Some ''CREATE_FAILED''\<rparr>), None)
       \<lparr>pages = [[\<lparr>ResourceStatus = Some ''CREATE_FAILED'', ResourceStatusReason = Some ''boom'',
                   ResourceType = None\<rparr>]],
        pageError = Some (RemoteError ''Throttling'')\<rparr>
     = StackCreated (Some (StackObject \<lparr>StackId = Some ''s'', StackStatus = Some ''CREATE_FAILED''\<rparr>), None)
       \<lparr>pages = [], pageError = Some (RemoteError ''Throttling'')\<rparr>"
proof
  show "getCloudFormationFailures
     \<lparr>pages = [[\<lparr>ResourceStatus = Some ''CREATE_FAILED'', ResourceStatusReason = Some ''boom'',
                 ResourceType = None\<rparr>]],
      pageError = Some (RemoteError ''Throttling'')\<rparr> = ([''boom''], Some (RemoteError ''Throttling''))"
    by (simp add: getCloudFormationFailures_def ListStackEvents_fold isFailedEvent_def HasSuffix_def
          StringValue_def)
next
  show "StackCreated (Some (StackObject \<lparr>StackId = Some ''s'', StackStatus = Some ''CREATE_FAILED''\<rparr>), None)
       \<lparr>pages = [[\<lparr>ResourceStatus = Some ''CREATE_FAILED'', ResourceStatusReason = Some ''boom'',
                   ResourceType = None\<rparr>]],
        pageError = Some (RemoteError ''Throttling'')\<rparr>
     = StackCreated (Some (StackObject \<lparr>StackId = Some ''s'', StackStatus = Some ''CREATE_FAILED''\<rparr>), None)
       \<lparr>pages = [], pageError = Some (RemoteError ''Throttling'')\<rparr>"
    by (rule conjunct1 [OF lookup_error_discards_reasons])
qed

text \<open>
  Claim C9. Whenever the wait yields a \<open>*DescribeChangeSetOutput\<close>, \<open>ChangeSetCreated\<close> returns
  that output, also when the wait's error is not nil; and when the status of the output is
  \<open>FAILED\<close>, the error returned is the wait's error after \<open>SetLastError\<close> has been given
  \<open>errors.New\<close> of the output's \<open>StatusReason\<close> as its last error. The stack waiters return a
  nil snapshot when the wait's error is not nil.
\<close>

theorem ChangeSetCreated_returns_output:
  "ChangeSetCreated setLast (Some (ChangeSetObject output), err) =
     (Some output,
      if StringValue (Status output) = ChangeSetStatusFailed
      then SetLastError setLast err (ErrorsNew (StringValue (StatusReason output))) else err)
   \<and> ChangeSetCreated setLast (Some (ChangeSetObject output), Some e) =
     (Some output,
      Some (if StringValue (Status output) = ChangeSetStatusFailed
            then setLast e (ErrorsNew (StringValue (StatusReason output))) else e))
   \<and> StackCreated (Some (StackObject stack), Some e) events = (None, Some e)
   \<and> StackUpdated (Some (StackObject stack), Some e) events = (None, Some e)
   \<and> StackDeleted (Some (StackObject stack), Some e) events = (None, Some e)"
  by (simp add: ChangeSetCreated_output SetLastError_def StackCreated_wait_error
        StackUpdated_wait_error StackDeleted_wait_error)

text \<open>
  The theorem at a change set that failed for want of changes, with a \<open>setLast\<close> that records
  the last error as a wrapped argument of the wait's error.
\<close>

theorem ChangeSetCreated_returns_output_witness:
  "ChangeSetCreated (\<lambda>e l. Errorf ''%s: %w'' [ArgW e, ArgW l])
     (Some (ChangeSetObject \<lparr>Status = Some ''FAILED'', StatusReason = Some ''No updates are to be performed.''\<rparr>),
      Some (UnrecognizedStatusError ''FAILED''))
   = (Some \<lparr>Status = Some ''FAILED'', StatusReason = Some ''No updates are to be performed.''\<rparr>,
      Some (Errorf ''%s: %w'' [ArgW (UnrecognizedStatusError ''FAILED''),
                               ArgW (ErrorsNew ''No updates are to be performed.'')]))"
  using ChangeSetCreated_returns_output
    [of "\<lambda>e l. Errorf ''%s: %w'' [ArgW e, ArgW l]"
        "\<lparr>Status = Some ''FAILED'', StatusReason = Some ''No updates are to be performed.''\<rparr>"
        "Some (UnrecognizedStatusError ''FAILED'')"]
  by (simp add: StringValue_def SetLastError_def)

subsection \<open>The MSK connector resource\<close>

lemma setFields_Id: "Id (fst (setFields dSet kvs d diagnostics)) = Id d"
  by (induction kvs arbitrary: d diagnostics) (auto split: prod.splits)

text \<open>
  Claim C10. Whenever \<open>DescribeConnector\<close> returns a non-nil error, of whatever kind,
  \<open>resourceAwsMskConnectorRead\<close> sets the resource ID to the empty string, leaves the
  attributes as they were, and returns the diagnostics of that error. Only when the call
  returns no error is the state written again: if the read then returns at all (it panics on
  a nil pointer in the output), the resource ID is the \<open>ConnectorArn\<close> of the output.
\<close>

theorem resourceAwsMskConnectorRead_error_clears_id:
  "resourceAwsMskConnectorRead dSet visit d (c, Some e) = Inr (d\<lparr>Id := []\<rparr>, FromErr e)
   \<and> (case resourceAwsMskConnectorRead dSet visit d (c, None) of
         Inl p \<Rightarrow> True
       | Inr (d', diagnostics) \<Rightarrow> \<exists>c'. c = Some c' \<and> ConnectorArn c' = Some (Id d'))"
proof
  show "resourceAwsMskConnectorRead dSet visit d (c, Some e) = Inr (d\<lparr>Id := []\<rparr>, FromErr e)"
    by (simp add: resourceAwsMskConnectorRead_def)
next
  have "Id d' = arn" if "setFields dSet kvs (d\<lparr>Id := arn\<rparr>) [] = (d', ds)" for kvs arn d' ds
    using setFields_Id [of dSet kvs "d\<lparr>Id := arn\<rparr>" "[]"] that by simp
  then show "case resourceAwsMskConnectorRead dSet visit d (c, None) of
         Inl p \<Rightarrow> True
       | Inr (d', diagnostics) \<Rightarrow> \<exists>c'. c = Some c' \<and> ConnectorArn c' = Some (Id d')"
    by (auto simp: resourceAwsMskConnectorRead_def split: option.splits sum.splits prod.splits)
qed

text \<open>The theorem at a throttled describe call on a connector that is in the state.\<close>

theorem resourceAwsMskConnectorRead_error_clears_id_witness:
  "resourceAwsMskConnectorRead (\<lambda>k v attrs. (attrs(k \<mapsto> v), None)) (\<lambda>kvs. kvs)
     \<lparr>Id = ''arn:aws:kafkaconnect:connector/c1'', attributes = Map.empty\<rparr>
     (None, Some (RemoteError ''ThrottlingException''))
   = Inr (\<lparr>Id = [], attributes = Map.empty\<rparr>, [ErrorDiagnostic (RemoteError ''ThrottlingException'')])"
  using resourceAwsMskConnectorRead_error_clears_id
    [of "\<lambda>k v attrs. (attrs(k \<mapsto> v), None)" "\<lambda>kvs. kvs"
        "\<lparr>Id = ''arn:aws:kafkaconnect:connector/c1'', attributes = Map.empty\<rparr>"
        None "RemoteError ''ThrottlingException''"]
  by (simp add: FromErr_def)

end
